theory Spec2Isabelle
  imports Main
begin

section \<open>JavaScript strings\<close>

text \<open>
  A string of the program is a \<open>string\<close> (a list of characters). A character stands
  for one code unit below 256; the code units the program tests for (white space,
  separators, letters, digits) all lie in that range.
\<close>

definition TAB :: char where
  "TAB = CHR 0x09"

definition LF :: char where
  "LF = CHR 0x0A"

text \<open>
  \<open>String.prototype.trim\<close> removes white space and line terminators from both ends:
  below 256 these are the code units 9 to 13, the space and the no-break space.
\<close>

definition is_js_space :: "char \<Rightarrow> bool" where
  "is_js_space c =
     (c = CHR 0x09 \<or> c = CHR 0x0A \<or> c = CHR 0x0B \<or> c = CHR 0x0C \<or> c = CHR 0x0D
      \<or> c = CHR '' '' \<or> c = CHR 0xA0)"

definition trim :: "string \<Rightarrow> string" where
  "trim s = rev (dropWhile is_js_space (rev (dropWhile is_js_space s)))"

text \<open>\<open>s.split(c)\<close> for a separator of one character: never an empty array.\<close>

fun split_on :: "char \<Rightarrow> string \<Rightarrow> string list" where
  "split_on c [] = [[]]"
| "split_on c (x # xs) =
     (if x = c then [] # split_on c xs
      else (case split_on c xs of
              [] \<Rightarrow> [[x]]
            | y # ys \<Rightarrow> (x # y) # ys))"

text \<open>\<open>xs.join(sep)\<close>.\<close>

fun join :: "string \<Rightarrow> string list \<Rightarrow> string" where
  "join sep [] = []"
| "join sep [x] = x"
| "join sep (x # y # ys) = x @ sep @ join sep (y # ys)"

definition startsWith :: "string \<Rightarrow> string \<Rightarrow> bool" where
  "startsWith s p = (take (length p) s = p)"

text \<open>\<open>s.indexOf(c)\<close>: the first position of \<open>c\<close>, or \<open>-1\<close>.\<close>

fun indexOf :: "string \<Rightarrow> char \<Rightarrow> int" where
  "indexOf [] c = -1"
| "indexOf (x # xs) c =
     (if x = c then 0
      else (let i = indexOf xs c in if i < 0 then -1 else i + 1))"

text \<open>
  \<open>s.substring(a, b)\<close> and \<open>s.substring(a)\<close> for the arguments the program passes
  (\<open>0 \<le> a \<le> b\<close>); an end beyond the string is clamped by \<open>take\<close>.
\<close>

definition substring :: "string \<Rightarrow> nat \<Rightarrow> nat \<Rightarrow> string" where
  "substring s a b = take (b - a) (drop a s)"

definition substring_from :: "string \<Rightarrow> nat \<Rightarrow> string" where
  "substring_from s a = drop a s"

text \<open>
  \<open>toUpperCase\<close> on the letters a to z. The program only compares the result with
  \<open>TRUE\<close>, and no other code unit has an upper case that contains T, R, U or E.
\<close>

definition upper_char :: "char \<Rightarrow> char" where
  "upper_char c =
     (let n = (of_char c :: nat)
      in if 97 \<le> n \<and> n \<le> 122 then char_of (n - 32) else c)"

definition toUpperCase :: "string \<Rightarrow> string" where
  "toUpperCase s = map upper_char s"

text \<open>The decimal digits of a natural number, as a template literal prints it.\<close>

fun digits10 :: "nat \<Rightarrow> string" where
  "digits10 n =
     (if n < 10 then [char_of (48 + n)]
      else digits10 (n div 10) @ [char_of (48 + n mod 10)])"

section \<open>Session context (src/contexts/session-context.tsx)\<close>

record InstagramCookie =
  c_name :: string
  c_value :: string
  c_domain :: string
  c_path :: string
  c_secure :: bool
  c_httpOnly :: bool
  c_expires :: "string option"

record SessionState =
  cookies :: "InstagramCookie list"
  username :: "string option"

text \<open>
  The provider holds the session in memory and mirrors it in the secure store under
  the key \<open>ig_session\<close>; \<open>stored = None\<close> is the absent key. The secure store may
  reject an operation (\<open>secure_store_ok = False\<close>); the rejection reaches the caller
  after \<open>setSession\<close> has run, so each operation returns the new state and whether
  it resolved.
\<close>

record SessionStore =
  session :: SessionState
  stored :: "SessionState option"
  secure_store_ok :: bool

definition saveCookies ::
  "InstagramCookie list \<Rightarrow> string option \<Rightarrow> SessionStore \<Rightarrow> SessionStore \<times> bool" where
  "saveCookies cs user st =
     (let dsUser = find (\<lambda>c. c_name c = ''ds_user_id'') cs;
          newSession = \<lparr>cookies = cs,
                        username = (case user of
                                      Some u \<Rightarrow> Some u
                                    | None \<Rightarrow> map_option c_value dsUser)\<rparr>;
          st1 = st\<lparr>session := newSession\<rparr>
      in if secure_store_ok st then (st1\<lparr>stored := Some newSession\<rparr>, True)
         else (st1, False))"

definition clearSession :: "SessionStore \<Rightarrow> SessionStore \<times> bool" where
  "clearSession st =
     (let st1 = st\<lparr>session := \<lparr>cookies = [], username = None\<rparr>\<rparr>
      in if secure_store_ok st then (st1\<lparr>stored := None\<rparr>, True)
         else (st1, False))"

definition cookie_line :: "InstagramCookie \<Rightarrow> string" where
  "cookie_line c =
     (let domain = (if c_domain c = [] then ''.instagram.com'' else c_domain c);
          subdomains = (if startsWith domain ''.'' then ''TRUE'' else ''FALSE'');
          path = (if c_path c = [] then ''/'' else c_path c);
          secure = (if c_secure c then ''TRUE'' else ''FALSE'');
          expiry = ''0''
      in domain @ [TAB] @ subdomains @ [TAB] @ path @ [TAB] @ secure @ [TAB] @ expiry
           @ [TAB] @ c_name c @ [TAB] @ c_value c)"

definition cookiesForApi :: "SessionState \<Rightarrow> string option" where
  "cookiesForApi s =
     (if length (cookies s) = 0 then None
      else Some (join [LF] (map cookie_line (cookies s))))"

text \<open>
  The line in the words of the specification: the cookie's own domain, the flag from
  that domain, the cookie's own path, the secure flag, \<open>0\<close>, the name and the value.
\<close>

definition netscape_line :: "InstagramCookie \<Rightarrow> string" where
  "netscape_line c =
     join [TAB]
       [c_domain c, if startsWith (c_domain c) ''.'' then ''TRUE'' else ''FALSE'', c_path c,
        if c_secure c then ''TRUE'' else ''FALSE'', ''0'', c_name c, c_value c]"

text \<open>
  The seven fields of the line \<open>cookiesForApi\<close> writes: an empty domain is written
  as \<open>.instagram.com\<close> and an empty path as \<open>/\<close>.
\<close>

definition line_fields :: "InstagramCookie \<Rightarrow> string list" where
  "line_fields c =
     (let domain = (if c_domain c = [] then ''.instagram.com'' else c_domain c)
      in [domain, if startsWith domain ''.'' then ''TRUE'' else ''FALSE'',
          if c_path c = [] then ''/'' else c_path c,
          if c_secure c then ''TRUE'' else ''FALSE'', ''0'', c_name c, c_value c])"

text \<open>
  A field without a tab or a line feed, and a cookie whose four text fields are such:
  the lines of these cookies can be read back field by field.
\<close>

definition clean :: "string \<Rightarrow> bool" where
  "clean f = (TAB \<notin> set f \<and> LF \<notin> set f)"

definition clean_cookie :: "InstagramCookie \<Rightarrow> bool" where
  "clean_cookie c =
     (clean (c_domain c) \<and> clean (c_path c) \<and> clean (c_name c) \<and> clean (c_value c))"

text \<open>A JavaScript string is truthy when it is not empty.\<close>

definition isLoggedIn :: "SessionState \<Rightarrow> bool" where
  "isLoggedIn s = list_ex (\<lambda>c. c_name c = ''sessionid'' \<and> c_value c \<noteq> []) (cookies s)"

section \<open>History context (src/unnamed/part_005)\<close>

definition MAX_HISTORY :: nat where
  "MAX_HISTORY = 200"

text \<open>
  \<open>duration\<close> is a JavaScript number that the history only carries; the model
  keeps it as an integer number of seconds.
\<close>

record DownloadRecord =
  d_id :: string
  d_url :: string
  d_title :: string
  d_uploader :: string
  d_thumbnail :: string
  d_duration :: int
  d_downloadedAt :: nat

text \<open>The argument of \<open>addRecord\<close>: a record without \<open>id\<close> and \<open>downloadedAt\<close>.\<close>

record NewRecord =
  n_url :: string
  n_title :: string
  n_uploader :: string
  n_thumbnail :: string
  n_duration :: int

text \<open>
  What one call of \<open>addRecord\<close> reads from its surroundings: the two readings of
  \<open>Date.now()\<close> and the six characters
  \<open>Math.random().toString(36).substring(2, 8)\<close>.
\<close>

record AddEnv =
  now_id :: nat
  random_suffix :: string
  now_stamp :: nat

text \<open>
  The list in memory and the payload under the key \<open>download_history\<close>
  (\<open>h_stored = None\<close>: absent). \<open>async_storage_ok = False\<close>: the storage rejects the
  operation, after \<open>setHistory\<close> has run.
\<close>

record HistoryStore =
  history :: "DownloadRecord list"
  h_stored :: "DownloadRecord list option"
  async_storage_ok :: bool

definition persist :: "DownloadRecord list \<Rightarrow> HistoryStore \<Rightarrow> HistoryStore \<times> bool" where
  "persist records st =
     (if async_storage_ok st then (st\<lparr>h_stored := Some records\<rparr>, True) else (st, False))"

definition newRecord :: "AddEnv \<Rightarrow> NewRecord \<Rightarrow> DownloadRecord" where
  "newRecord env r =
     \<lparr>d_id = digits10 (now_id env) @ ''_'' @ random_suffix env,
      d_url = n_url r, d_title = n_title r, d_uploader = n_uploader r,
      d_thumbnail = n_thumbnail r, d_duration = n_duration r,
      d_downloadedAt = now_stamp env\<rparr>"

definition addRecord :: "AddEnv \<Rightarrow> NewRecord \<Rightarrow> HistoryStore \<Rightarrow> HistoryStore \<times> bool" where
  "addRecord env r st =
     (let updated = take MAX_HISTORY (newRecord env r # history st)
      in persist updated (st\<lparr>history := updated\<rparr>))"

definition removeRecord :: "string \<Rightarrow> HistoryStore \<Rightarrow> HistoryStore \<times> bool" where
  "removeRecord i st =
     (let updated = filter (\<lambda>r. d_id r \<noteq> i) (history st)
      in persist updated (st\<lparr>history := updated\<rparr>))"

definition clearHistory :: "HistoryStore \<Rightarrow> HistoryStore \<times> bool" where
  "clearHistory st =
     (let st1 = st\<lparr>history := []\<rparr>
      in if async_storage_ok st then (st1\<lparr>h_stored := None\<rparr>, True) else (st1, False))"

text \<open>Records added one after another, each call seeing the list the last one left.\<close>

fun addRecords :: "(AddEnv \<times> NewRecord) list \<Rightarrow> HistoryStore \<Rightarrow> HistoryStore" where
  "addRecords [] st = st"
| "addRecords ((env, r) # rest) st = addRecords rest (fst (addRecord env r st))"

section \<open>API client (src/constants/api.ts)\<close>

definition API_BASE_URL :: string where
  "API_BASE_URL = ''http://192.168.1.10:8000''"

definition HEALTH_TIMEOUT_MS :: nat where
  "HEALTH_TIMEOUT_MS = 5000"

definition INFO_TIMEOUT_MS :: nat where
  "INFO_TIMEOUT_MS = 15000"

definition DOWNLOAD_TIMEOUT_MS :: nat where
  "DOWNLOAD_TIMEOUT_MS = 120000"

record ReelInfo =
  title :: string
  thumbnail :: string
  duration :: int
  video_url :: string
  uploader :: string

text \<open>
  A parsed JSON value; an object lists its (distinct) keys in order. A number is kept
  as the text JavaScript prints for it: the program never computes with one.
\<close>

datatype json =
  JNull
| JBool bool
| JNum string
| JStr string
| JArr "json list"
| JObj "(string \<times> json) list"

text \<open>
  A value read off a parsed body: a property that is not there is \<open>undefined\<close>.
\<close>

datatype JsValue = Undefined | Value json

text \<open>
  \<open>String(v)\<close> for a JSON value: an array joins its elements with commas, \<open>null\<close>
  among them printed as nothing; an object prints as \<open>[object Object]\<close>.
\<close>

fun js_to_string :: "json \<Rightarrow> string" where
  "js_to_string JNull = ''null''"
| "js_to_string (JBool b) = (if b then ''true'' else ''false'')"
| "js_to_string (JNum t) = t"
| "js_to_string (JStr t) = t"
| "js_to_string (JArr xs) =
     join '','' (map (\<lambda>x. if x = JNull then [] else js_to_string x) xs)"
| "js_to_string (JObj kv) = ''[object Object]''"

text \<open>
  The \<open>message\<close> of \<open>new Error(v)\<close>: empty for \<open>undefined\<close>, otherwise
  \<open>String(v)\<close>.
\<close>

definition error_message :: "JsValue \<Rightarrow> string" where
  "error_message v = (case v of Undefined \<Rightarrow> [] | Value j \<Rightarrow> js_to_string j)"

text \<open>\<open>data.detail\<close>; reading a property of \<open>null\<close> throws a TypeError (\<open>None\<close>).\<close>

definition detail_of :: "json \<Rightarrow> JsValue option" where
  "detail_of data =
     (case data of
        JNull \<Rightarrow> None
      | JObj kv \<Rightarrow> (case map_of kv ''detail'' of
                     None \<Rightarrow> Some Undefined
                   | Some v \<Rightarrow> Some (Value v))
      | _ \<Rightarrow> Some Undefined)"

text \<open>What a function of the program throws.\<close>

datatype Thrown =
  ApiError nat string
| OtherError string
| NonError

datatype Method = GET | POST

text \<open>
  One call of \<open>fetchWithTimeout\<close>: the address, the options and the timeout.
  \<open>req_body\<close> is the value given to \<open>JSON.stringify\<close>.
\<close>

record Request =
  req_method :: Method
  req_url :: string
  req_headers :: "(string \<times> string) list"
  req_body :: "json option"
  req_timeout :: nat

text \<open>
  A response, as far as the client reads it: the status, the
  \<open>Content-Disposition\<close> header, and two readings of the body. \<open>error_json\<close> is
  what \<open>await response.json()\<close> gives where the client reads the error of a response
  that is not ok: any JSON value, or \<open>None\<close> when the read rejects (the body is not
  JSON). \<open>payload\<close> is \<open>await response.json()\<close> or \<open>await response.blob()\<close> of a
  response that is ok, at the type the caller declares, \<open>Inl m\<close> when it rejects with
  an error of message \<open>m\<close>.
\<close>

record 'a Response =
  status_code :: nat
  content_disposition :: "string option"
  error_json :: "json option"
  payload :: "string + 'a"

text \<open>
  \<open>fetch\<close> rejects when the request fails on the network or the timer aborts it;
  otherwise it resolves with a response.
\<close>

datatype 'a FetchOutcome = Rejected | Resolved "'a Response"

definition ok :: "'a Response \<Rightarrow> bool" where
  "ok r = (200 \<le> status_code r \<and> status_code r \<le> 299)"

text \<open>
  \<open>getErrorMessage\<close> returns one of its four strings or the fallback it was given,
  whatever value that is.
\<close>

definition getErrorMessage :: "nat \<Rightarrow> JsValue \<Rightarrow> JsValue" where
  "getErrorMessage status fallback =
     (if status = 422 then
        Value (JStr ''URL no valida. Asegurate de que sea un enlace de Instagram Reel.'')
      else if status = 403 then
        Value (JStr ''Este Reel es privado o requiere inicio de sesion.'')
      else if status = 404 then
        Value (JStr ''Reel no encontrado. Verifica el enlace e intenta de nuevo.'')
      else if status = 500 then
        Value (JStr ''Error en el servidor. Intenta de nuevo mas tarde.'')
      else fallback)"

definition UNREACHABLE_MESSAGE :: string where
  "UNREACHABLE_MESSAGE =
     ''No se pudo conectar al servidor. Verifica que este encendido y en la misma red.''"

text \<open>\<open>API_BASE_URL.replace(/\/+$/, "")\<close>.\<close>

definition strip_trailing_slashes :: "string \<Rightarrow> string" where
  "strip_trailing_slashes s = rev (dropWhile (\<lambda>c. c = CHR ''/'') (rev s))"

definition health_request :: Request where
  "health_request =
     \<lparr>req_method = GET, req_url = strip_trailing_slashes API_BASE_URL @ ''/'',
      req_headers = [], req_body = None, req_timeout = HEALTH_TIMEOUT_MS\<rparr>"

text \<open>\<open>data.status === "ok"\<close>; reading a property of \<open>null\<close> throws a TypeError.\<close>

definition status_is_ok :: "json \<Rightarrow> Thrown + bool" where
  "status_is_ok data =
     (case data of
        JNull \<Rightarrow> Inl (OtherError ''TypeError'')
      | JObj kv \<Rightarrow> Inr (map_of kv ''status'' = Some (JStr ''ok''))
      | _ \<Rightarrow> Inr False)"

text \<open>The body of the \<open>try\<close> block of \<open>checkServerHealth\<close>.\<close>

definition checkServerHealth_try :: "(Request \<Rightarrow> json FetchOutcome) \<Rightarrow> Thrown + bool" where
  "checkServerHealth_try fetch =
     (case fetch health_request of
        Rejected \<Rightarrow> Inl (OtherError ''fetch'')
      | Resolved response \<Rightarrow>
          if \<not> ok response then Inr False
          else (case payload response of
                  Inl m \<Rightarrow> Inl (OtherError m)
                | Inr data \<Rightarrow> status_is_ok data))"

definition checkServerHealth :: "(Request \<Rightarrow> json FetchOutcome) \<Rightarrow> Thrown + bool" where
  "checkServerHealth fetch =
     (case checkServerHealth_try fetch of
        Inl e \<Rightarrow> Inr False
      | Inr b \<Rightarrow> Inr b)"

definition info_request :: "string \<Rightarrow> Request" where
  "info_request u =
     \<lparr>req_method = POST, req_url = API_BASE_URL @ ''/info'',
      req_headers = [(''Content-Type'', ''application/json'')],
      req_body = Some (JObj [(''url'', JStr u)]), req_timeout = INFO_TIMEOUT_MS\<rparr>"

definition download_request :: "string \<Rightarrow> Request" where
  "download_request u =
     \<lparr>req_method = POST, req_url = API_BASE_URL @ ''/download'',
      req_headers = [(''Content-Type'', ''application/json'')],
      req_body = Some (JObj [(''url'', JStr u)]), req_timeout = DOWNLOAD_TIMEOUT_MS\<rparr>"

text \<open>
  The error thrown for a response that is not ok (both POST calls). \<open>detail\<close> starts
  as \<open>Error desconocido.\<close> and keeps that value when the read of the body or of its
  \<open>detail\<close> throws; otherwise it becomes \<open>errorData.detail\<close>, whatever the body
  holds there. \<open>new ApiError(status, detail)\<close> passes \<open>detail\<close> to \<open>Error\<close>.
\<close>

definition error_of_response :: "'a Response \<Rightarrow> Thrown" where
  "error_of_response response =
     (let detail = (case error_json response of
                      None \<Rightarrow> Value (JStr ''Error desconocido.'')
                    | Some errorData \<Rightarrow>
                        (case detail_of errorData of
                           None \<Rightarrow> Value (JStr ''Error desconocido.'')
                         | Some d \<Rightarrow> d))
      in ApiError (status_code response)
           (error_message (getErrorMessage (status_code response) detail)))"

text \<open>
  \<open>fetchReelInfo(url)\<close> has one parameter: it builds the request from \<open>url\<close> alone.
\<close>

definition fetchReelInfo :: "(Request \<Rightarrow> ReelInfo FetchOutcome) \<Rightarrow> string \<Rightarrow> Thrown + ReelInfo" where
  "fetchReelInfo fetch u =
     (case fetch (info_request u) of
        Rejected \<Rightarrow> Inl (ApiError 0 UNREACHABLE_MESSAGE)
      | Resolved response \<Rightarrow>
          if \<not> ok response then Inl (error_of_response response)
          else (case payload response of
                  Inl m \<Rightarrow> Inl (OtherError m)
                | Inr info \<Rightarrow> Inr info))"

text \<open>
  The regular expression \<open>/filename="?(.+?)"?$/\<close> applied at one position after
  \<open>filename=\<close>: the lazy group takes the shortest non-empty run without a line
  terminator that leaves only an optional quote before the end.
\<close>

definition line_terminator :: "char \<Rightarrow> bool" where
  "line_terminator c = (c = CHR 0x0A \<or> c = CHR 0x0D)"

definition lazy_capture :: "string \<Rightarrow> string option" where
  "lazy_capture s =
     (if s = [] then None
      else (let cap = (if 2 \<le> length s \<and> last s = CHR 0x22 then butlast s else s)
            in if list_ex line_terminator cap then None else Some cap))"

definition filename_at :: "string \<Rightarrow> string option" where
  "filename_at s =
     (if startsWith s ''filename='' then
        (let rest = drop 9 s
         in if startsWith rest [CHR 0x22] then
              (case lazy_capture (tl rest) of
                 Some c \<Rightarrow> Some c
               | None \<Rightarrow> lazy_capture rest)
            else lazy_capture rest)
      else None)"

text \<open>\<open>disposition.match(...)\<close>: the first position where the expression matches.\<close>

fun filename_match :: "string \<Rightarrow> string option" where
  "filename_match [] = None"
| "filename_match (c # cs) =
     (case filename_at (c # cs) of
        Some f \<Rightarrow> Some f
      | None \<Rightarrow> filename_match cs)"

type_synonym Blob = string

text \<open>\<open>now\<close> is the reading of \<open>Date.now()\<close> for the default file name.\<close>

definition downloadReelBinary ::
  "(Request \<Rightarrow> Blob FetchOutcome) \<Rightarrow> nat \<Rightarrow> string \<Rightarrow> Thrown + (Blob \<times> string)" where
  "downloadReelBinary fetch now u =
     (case fetch (download_request u) of
        Rejected \<Rightarrow> Inl (ApiError 0 UNREACHABLE_MESSAGE)
      | Resolved response \<Rightarrow>
          if \<not> ok response then Inl (error_of_response response)
          else (let filenameMatch = (case content_disposition response of
                                       None \<Rightarrow> None
                                     | Some disposition \<Rightarrow> filename_match disposition);
                    filename = (case filenameMatch of
                                  Some f \<Rightarrow> f
                                | None \<Rightarrow> ''reel_'' @ digits10 now @ ''.mp4'')
                in case payload response of
                     Inl m \<Rightarrow> Inl (OtherError m)
                   | Inr blob \<Rightarrow> Inr (blob, filename)))"

section \<open>Home screen (src/unnamed/part_000)\<close>

datatype AppStatus =
  idle
| checking_server
| fetching_info
| preview
| downloading
| saving
| success
| error

subsection \<open>The URL pattern\<close>

text \<open>
  The fragment of regular expressions that \<open>INSTAGRAM_URL_REGEX\<close> uses: a literal,
  an optional group, an alternative, a sequence, and one or more characters of a class.
\<close>

datatype rx =
  Lit string
| Opt rx
| Alt rx rx
| Seq rx rx
| Plus "char \<Rightarrow> bool"

text \<open>
  All the ways an expression matches at the start of a string, each given by what is
  left of the string, in the order a backtracking matcher tries them.
\<close>

fun rx_match :: "rx \<Rightarrow> string \<Rightarrow> string list" where
  "rx_match (Lit l) s = (if startsWith s l then [drop (length l) s] else [])"
| "rx_match (Opt r) s = rx_match r s @ [s]"
| "rx_match (Alt a b) s = rx_match a s @ rx_match b s"
| "rx_match (Seq a b) s = concat (map (rx_match b) (rx_match a s))"
| "rx_match (Plus p) s =
     (let n = length (takeWhile p s) in map (\<lambda>k. drop k s) (rev [1..<Suc n]))"

text \<open>\<open>[\w-]\<close>: a letter, a digit, the underscore or the hyphen.\<close>

definition is_word_char :: "char \<Rightarrow> bool" where
  "is_word_char c =
     (let n = (of_char c :: nat)
      in (65 \<le> n \<and> n \<le> 90) \<or> (97 \<le> n \<and> n \<le> 122) \<or> (48 \<le> n \<and> n \<le> 57) \<or> n = 95)"

definition word_or_hyphen :: "char \<Rightarrow> bool" where
  "word_or_hyphen c = (is_word_char c \<or> c = CHR ''-'')"

text \<open>\<open>/^https?:\/\/(www\.)?instagram\.com\/(reel|reels|p)\/[\w-]+/\<close>\<close>

definition INSTAGRAM_URL_REGEX :: rx where
  "INSTAGRAM_URL_REGEX =
     Seq (Lit ''http'')
    (Seq (Opt (Lit ''s''))
    (Seq (Lit ''://'')
    (Seq (Opt (Lit ''www.''))
    (Seq (Lit ''instagram.com/'')
    (Seq (Alt (Lit ''reel'') (Alt (Lit ''reels'') (Lit ''p'')))
    (Seq (Lit ''/'')
         (Plus word_or_hyphen)))))))"

text \<open>\<open>regex.test(s)\<close> for an expression anchored at the start.\<close>

definition rx_test :: "rx \<Rightarrow> string \<Rightarrow> bool" where
  "rx_test r s = (rx_match r s \<noteq> [])"

text \<open>
  The strings an expression matches in full; the matcher is proved against it below.
\<close>

fun lang :: "rx \<Rightarrow> string set" where
  "lang (Lit l) = {l}"
| "lang (Opt r) = insert [] (lang r)"
| "lang (Alt a b) = lang a \<union> lang b"
| "lang (Seq a b) = {x @ y | x y. x \<in> lang a \<and> y \<in> lang b}"
| "lang (Plus p) = {w. w \<noteq> [] \<and> (\<forall>c \<in> set w. p c)}"

text \<open>
  The pattern in the words of the specification: scheme http or https, an optional
  \<open>www.\<close>, the host \<open>instagram.com\<close>, a path that starts with \<open>/reel/\<close>,
  \<open>/reels/\<close> or \<open>/p/\<close>, and then an identifier of letters, digits, \<open>-\<close> and \<open>_\<close>
  (at least one character).
\<close>

definition reel_shaped :: "string \<Rightarrow> bool" where
  "reel_shaped s =
     (\<exists>scheme www seg c rest.
        s = scheme @ ''://'' @ www @ ''instagram.com/'' @ seg @ ''/'' @ [c] @ rest
        \<and> (scheme = ''http'' \<or> scheme = ''https'')
        \<and> (www = [] \<or> www = ''www.'')
        \<and> (seg = ''reel'' \<or> seg = ''reels'' \<or> seg = ''p'')
        \<and> word_or_hyphen c)"

subsection \<open>State and surroundings\<close>

record HomeState =
  url :: string
  status :: AppStatus
  reelInfo :: "ReelInfo option"
  errorMessage :: string
  serverOnline :: "bool option"
  is403 :: bool

definition initialHome :: HomeState where
  "initialHome =
     \<lparr>url = [], status = idle, reelInfo = None, errorMessage = [],
      serverOnline = None, is403 = False\<rparr>"

text \<open>
  What the handlers ask of the device and the network, each answer either a value or
  what the call throws: the server behind \<open>fetch\<close>, the permission request, the
  direct download to a file (the address and the file name give the file's URI), the
  write of the fallback file (the name and the bytes give its URI), the save to the
  gallery, whether the temporary file exists, the readings of \<open>Date.now()\<close>, and
  the text on the clipboard.
\<close>

record World =
  fetch_health :: "Request \<Rightarrow> json FetchOutcome"
  fetch_info :: "Request \<Rightarrow> ReelInfo FetchOutcome"
  fetch_download :: "Request \<Rightarrow> Blob FetchOutcome"
  requestPermissionsAsync :: "Thrown + string"
  downloadFileAsync :: "string \<Rightarrow> string \<Rightarrow> Thrown + string"
  writeCacheFile :: "string \<Rightarrow> Blob \<Rightarrow> Thrown + string"
  saveToLibraryAsync :: "string \<Rightarrow> Thrown + unit"
  fileExists :: "string \<Rightarrow> bool"
  now_file :: nat
  now_fallback :: nat
  getStringAsync :: "Thrown + string"

text \<open>The calls a handler makes, in order.\<close>

datatype Effect =
  Fetch Request
| RequestPermission
| NativeDownload string string
| WriteFile string
| SaveToLibrary string
| DeleteFile string
| ReadClipboard
| ShowAlert string string

text \<open>
  A device for closed examples: no network, permission denied, every file operation
  failing. The examples change the fields they need.
\<close>

definition offline_world :: World where
  "offline_world =
     \<lparr>fetch_health = (\<lambda>q. Rejected), fetch_info = (\<lambda>q. Rejected),
      fetch_download = (\<lambda>q. Rejected), requestPermissionsAsync = Inr ''denied'',
      downloadFileAsync = (\<lambda>u f. Inl (OtherError ''download failed'')),
      writeCacheFile = (\<lambda>f b. Inl (OtherError ''write failed'')),
      saveToLibraryAsync = (\<lambda>u. Inl (OtherError ''save failed'')),
      fileExists = (\<lambda>u. False), now_file = 1700000000000, now_fallback = 1700000000500,
      getStringAsync = Inr []\<rparr>"

definition example_info :: ReelInfo where
  "example_info =
     \<lparr>title = ''Sunset'', thumbnail = ''https://cdn.example/t.jpg'', duration = 12,
      video_url = ''https://cdn.example/v.mp4'', uploader = ''someone''\<rparr>"

text \<open>The same device with a server that answers every metadata request.\<close>

definition server_world :: World where
  "server_world =
     offline_world\<lparr>fetch_info :=
       (\<lambda>q. Resolved \<lparr>status_code = 200, content_disposition = None, error_json = None,
                       payload = Inr example_info\<rparr>)\<rparr>"

text \<open>\<open>showPreview\<close>: a ReelInfo is held and the status is one that displays it.\<close>

definition showPreview :: "HomeState \<Rightarrow> bool" where
  "showPreview st =
     (reelInfo st \<noteq> None
      \<and> (status st = preview \<or> status st = downloading \<or> status st = saving
           \<or> status st = success))"

definition isLoading :: "HomeState \<Rightarrow> bool" where
  "isLoading st =
     (status st = checking_server \<or> status st = fetching_info \<or> status st = downloading
      \<or> status st = saving)"

subsection \<open>Handlers\<close>

definition onMount :: "World \<Rightarrow> HomeState \<Rightarrow> HomeState \<times> Effect list" where
  "onMount w st =
     (case checkServerHealth (fetch_health w) of
        Inr b \<Rightarrow> (st\<lparr>serverOnline := Some b\<rparr>, [Fetch health_request])
      | Inl e \<Rightarrow> (st, [Fetch health_request]))"

text \<open>
  \<open>handlePaste\<close>: a non-empty clipboard replaces the input with its trimmed text and
  clears the message; status and ReelInfo are not touched.
\<close>

definition handlePaste :: "World \<Rightarrow> HomeState \<Rightarrow> HomeState \<times> Effect list" where
  "handlePaste w st =
     (case getStringAsync w of
        Inl e \<Rightarrow> (st, [ReadClipboard, ShowAlert ''Error'' ''No se pudo acceder al portapapeles.''])
      | Inr clipboardContent \<Rightarrow>
          if clipboardContent \<noteq> [] then
            (st\<lparr>url := trim clipboardContent, errorMessage := []\<rparr>, [ReadClipboard])
          else (st, [ReadClipboard]))"

definition handleClear :: "HomeState \<Rightarrow> HomeState" where
  "handleClear st =
     st\<lparr>url := [], status := idle, reelInfo := None, errorMessage := [], is403 := False\<rparr>"

definition handleNewDownload :: "HomeState \<Rightarrow> HomeState" where
  "handleNewDownload st =
     st\<lparr>url := [], status := idle, reelInfo := None, errorMessage := [], is403 := False\<rparr>"

text \<open>
  \<open>onChangeText\<close>: both tests read the status of the render the handler belongs to.
\<close>

definition onChangeText :: "string \<Rightarrow> HomeState \<Rightarrow> HomeState" where
  "onChangeText text st =
     (let st1 = st\<lparr>url := text, errorMessage := []\<rparr>;
          st2 = (if status st = error then st1\<lparr>status := idle\<rparr> else st1)
      in if status st = preview \<or> status st = success
         then st2\<lparr>status := idle, reelInfo := None\<rparr>
         else st2)"

text \<open>
  \<open>handleFetchInfo\<close>. The call \<open>fetchReelInfo(trimmedUrl, cookies)\<close> passes two
  arguments to a function of one parameter; JavaScript drops the second.
\<close>

definition handleFetchInfo :: "World \<Rightarrow> SessionState \<Rightarrow> HomeState \<Rightarrow> HomeState \<times> Effect list" where
  "handleFetchInfo w sess st =
     (let trimmedUrl = trim (url st) in
      if trimmedUrl = [] then (st\<lparr>errorMessage := ''Por favor, ingresa una URL.''\<rparr>, [])
      else if \<not> rx_test INSTAGRAM_URL_REGEX trimmedUrl then
        (st\<lparr>errorMessage := ''URL no valida. Ingresa un enlace de Instagram Reel.''\<rparr>, [])
      else
        (let st1 = st\<lparr>errorMessage := [], reelInfo := None, is403 := False,
                      status := fetching_info\<rparr>;
             cookies = cookiesForApi sess
         in case fetchReelInfo (fetch_info w) trimmedUrl of
              Inr info \<Rightarrow>
                (st1\<lparr>reelInfo := Some info, status := preview\<rparr>,
                 [Fetch (info_request trimmedUrl)])
            | Inl (ApiError code message) \<Rightarrow>
                (st1\<lparr>status := error, errorMessage := message, is403 := (code = 403)\<rparr>,
                 [Fetch (info_request trimmedUrl)])
            | Inl _ \<Rightarrow>
                (st1\<lparr>status := error,
                     errorMessage := ''No se pudo conectar al servidor. Verifica tu conexion.''\<rparr>,
                 [Fetch (info_request trimmedUrl)])))"

text \<open>
  \<open>safeName\<close>: the title (or \<open>reel\<close>) without the characters outside
  \<open>[a-zA-Z0-9_\- ]\<close>, trimmed, each run of spaces turned into one underscore, cut at
  60 characters.
\<close>

definition safe_char :: "char \<Rightarrow> bool" where
  "safe_char c = (is_word_char c \<or> c = CHR ''-'' \<or> c = CHR '' '')"

fun collapse_spaces :: "bool \<Rightarrow> string \<Rightarrow> string" where
  "collapse_spaces in_run [] = []"
| "collapse_spaces in_run (c # cs) =
     (if is_js_space c then
        (if in_run then collapse_spaces True cs else CHR ''_'' # collapse_spaces True cs)
      else c # collapse_spaces False cs)"

definition spaces_to_underscore :: "string \<Rightarrow> string" where
  "spaces_to_underscore s = collapse_spaces False s"

definition safeName :: "string \<Rightarrow> string" where
  "safeName t =
     substring (spaces_to_underscore (trim (filter safe_char (if t = [] then ''reel'' else t)))) 0 60"

text \<open>The message the \<open>catch\<close> of \<open>handleDownload\<close> shows.\<close>

definition download_error_message :: "Thrown \<Rightarrow> string" where
  "download_error_message err =
     (case err of
        ApiError code message \<Rightarrow> message
      | OtherError message \<Rightarrow> message
      | NonError \<Rightarrow> ''Error inesperado al descargar.'')"

text \<open>
  The inner \<open>try\<close>/\<open>catch\<close> of \<open>handleDownload\<close>: the direct download, and when it
  throws, the download through the server and the write of the bytes. As in
  \<open>handleFetchInfo\<close>, \<open>downloadReelBinary\<close> has one parameter and the cookies passed
  second are dropped.
\<close>

definition obtain_file ::
  "World \<Rightarrow> SessionState \<Rightarrow> HomeState \<Rightarrow> ReelInfo \<Rightarrow> (Thrown + string) \<times> Effect list" where
  "obtain_file w sess st info =
     (let videoUrl = video_url info;
          fileName = safeName (title info) @ ''_'' @ digits10 (now_file w) @ ''.mp4''
      in case downloadFileAsync w videoUrl fileName of
           Inr uri \<Rightarrow> (Inr uri, [NativeDownload videoUrl fileName])
         | Inl e \<Rightarrow>
             (let cookies = cookiesForApi sess
              in case downloadReelBinary (fetch_download w) (now_fallback w) (trim (url st)) of
                   Inl err \<Rightarrow>
                     (Inl err,
                      [NativeDownload videoUrl fileName, Fetch (download_request (trim (url st)))])
                 | Inr (blob, filename) \<Rightarrow>
                     (case writeCacheFile w filename blob of
                        Inl err \<Rightarrow>
                          (Inl err,
                           [NativeDownload videoUrl fileName,
                            Fetch (download_request (trim (url st))), WriteFile filename])
                      | Inr uri \<Rightarrow>
                          (Inr uri,
                           [NativeDownload videoUrl fileName,
                            Fetch (download_request (trim (url st))), WriteFile filename]))))"

definition download_failed :: "HomeState \<Rightarrow> Thrown \<Rightarrow> HomeState" where
  "download_failed st err = st\<lparr>status := error, errorMessage := download_error_message err\<rparr>"

definition handleDownload :: "World \<Rightarrow> SessionState \<Rightarrow> HomeState \<Rightarrow> HomeState \<times> Effect list" where
  "handleDownload w sess st =
     (case reelInfo st of
        None \<Rightarrow> (st, [])
      | Some info \<Rightarrow>
          (let st1 = st\<lparr>status := downloading, errorMessage := []\<rparr>
           in case requestPermissionsAsync w of
                Inl err \<Rightarrow> (download_failed st1 err, [RequestPermission])
              | Inr permStatus \<Rightarrow>
                  if permStatus \<noteq> ''granted'' then
                    (download_failed st1 (OtherError ''Se necesitan permisos para guardar el video.''),
                     [RequestPermission])
                  else
                    (case obtain_file w sess st info of
                       (Inl err, effs) \<Rightarrow> (download_failed st1 err, RequestPermission # effs)
                     | (Inr fileUri, effs) \<Rightarrow>
                         if fileUri = [] then
                           (download_failed st1 (OtherError ''La descarga fallo.''),
                            RequestPermission # effs)
                         else
                           (let st2 = st1\<lparr>status := saving\<rparr>
                            in case saveToLibraryAsync w fileUri of
                                 Inl err \<Rightarrow>
                                   (download_failed st2 err,
                                    RequestPermission # effs @ [SaveToLibrary fileUri])
                               | Inr u \<Rightarrow>
                                   (st2\<lparr>status := success\<rparr>,
                                    RequestPermission # effs @ [SaveToLibrary fileUri]
                                      @ (if fileExists w fileUri then [DeleteFile fileUri] else []))))))"

definition handleRetry :: "World \<Rightarrow> SessionState \<Rightarrow> HomeState \<Rightarrow> HomeState \<times> Effect list" where
  "handleRetry w sess st =
     (case reelInfo st of
        Some info \<Rightarrow> handleDownload w sess st
      | None \<Rightarrow> handleFetchInfo w sess st)"

section \<open>Session screen: manual import (src/unnamed/part_002, part_003)\<close>

text \<open>The lines in Netscape format: seven or more fields separated by tabs.\<close>

definition netscape_cookie :: "string list \<Rightarrow> InstagramCookie" where
  "netscape_cookie parts =
     \<lparr>c_name = trim (parts ! 5), c_value = trim (parts ! 6), c_domain = trim (parts ! 0),
      c_path = trim (parts ! 2), c_secure = (toUpperCase (trim (parts ! 3)) = ''TRUE''),
      c_httpOnly = (trim (parts ! 5) = ''sessionid''), c_expires = None\<rparr>"

definition parse_netscape :: "string \<Rightarrow> InstagramCookie list" where
  "parse_netscape text =
     (let lines = filter (\<lambda>l. trim l \<noteq> [] \<and> \<not> startsWith l ''#'') (split_on LF text)
      in concat (map (\<lambda>line. let parts = split_on TAB line
                              in if 7 \<le> length parts then [netscape_cookie parts] else [])
                     lines))"

text \<open>The pairs \<open>name=value\<close> separated by semicolons.\<close>

definition pair_cookie :: "string \<Rightarrow> nat \<Rightarrow> InstagramCookie" where
  "pair_cookie pair eqIdx =
     \<lparr>c_name = trim (substring pair 0 eqIdx), c_value = trim (substring_from pair (eqIdx + 1)),
      c_domain = ''.instagram.com'', c_path = ''/'', c_secure = True,
      c_httpOnly = (trim (substring pair 0 eqIdx) = ''sessionid''), c_expires = None\<rparr>"

definition parse_pairs :: "string \<Rightarrow> InstagramCookie list" where
  "parse_pairs text =
     (let pairs = filter (\<lambda>p. p \<noteq> []) (map trim (split_on (CHR '';'') text))
      in concat (map (\<lambda>pair. let eqIdx = indexOf pair (CHR ''='')
                              in if eqIdx > 0 then [pair_cookie pair (nat eqIdx)] else [])
                     pairs))"

text \<open>The cookies \<open>handleManualSave\<close> reads from the trimmed text.\<close>

definition parse_manual :: "string \<Rightarrow> InstagramCookie list" where
  "parse_manual text =
     (let cs = parse_netscape text
      in if length cs = 0 then parse_pairs text else cs)"



section \<open>Properties of the history\<close>

declare digits10.simps [simp del]

lemma take_append_take: "take n (xs @ take n ys) = take n (xs @ ys)"
  by (simp add: min_def)

lemma addRecord_history:
  "history (fst (addRecord env r st)) = take MAX_HISTORY (newRecord env r # history st)"
  by (simp add: addRecord_def persist_def Let_def)

text \<open>
  A run of additions on a list within the cap: the new records in reverse order of
  their addition, then the old list, cut at the cap.
\<close>

lemma addRecords_history_capped:
  "length (history st) \<le> MAX_HISTORY \<Longrightarrow>
   history (addRecords es st) =
     take MAX_HISTORY (rev (map (\<lambda>(env, r). newRecord env r) es) @ history st)"
proof (induction es arbitrary: st)
  case Nil
  then show ?case by simp
next
  case (Cons e es)
  obtain env r where e: "e = (env, r)" by (cases e)
  let ?st1 = "fst (addRecord env r st)"
  have len: "length (history ?st1) \<le> MAX_HISTORY"
    by (simp add: addRecord_history)
  have "history (addRecords (e # es) st) =
          take MAX_HISTORY (rev (map (\<lambda>(env, r). newRecord env r) es)
            @ take MAX_HISTORY (newRecord env r # history st))"
    using Cons.IH [OF len] by (simp add: e addRecord_history)
  also have "\<dots> = take MAX_HISTORY (rev (map (\<lambda>(env, r). newRecord env r) es)
            @ (newRecord env r # history st))"
    by (rule take_append_take)
  finally show ?case by (simp add: e)
qed

text \<open>
  The list a store was loaded with may be longer than the cap; the first addition
  cuts it.
\<close>

lemma addRecords_history:
  "es \<noteq> [] \<Longrightarrow>
   history (addRecords es st) =
     take MAX_HISTORY (rev (map (\<lambda>(env, r). newRecord env r) es) @ history st)"
proof (cases es)
  case Nil
  assume "es \<noteq> []"
  with Nil show ?thesis by simp
next
  case (Cons e rest)
  obtain env r where e: "e = (env, r)" by (cases e)
  let ?st1 = "fst (addRecord env r st)"
  have len: "length (history ?st1) \<le> MAX_HISTORY"
    by (simp add: addRecord_history)
  have "history (addRecords es st) =
          take MAX_HISTORY (rev (map (\<lambda>(env, r). newRecord env r) rest)
            @ take MAX_HISTORY (newRecord env r # history st))"
    using addRecords_history_capped [OF len, of rest] by (simp add: Cons e addRecord_history)
  also have "\<dots> = take MAX_HISTORY (rev (map (\<lambda>(env, r). newRecord env r) rest)
            @ (newRecord env r # history st))"
    by (rule take_append_take)
  finally show ?thesis by (simp add: Cons e)
qed

lemma addRecords_one_past_cap:
  assumes "length es = Suc MAX_HISTORY"
  shows "history (addRecords es st) = rev (map (\<lambda>(env, r). newRecord env r) (tl es))"
proof -
  from assms obtain e rest where es: "es = e # rest" and rest: "length rest = MAX_HISTORY"
    by (cases es) auto
  have "history (addRecords es st) =
     take MAX_HISTORY (rev (map (\<lambda>(env, r). newRecord env r) es) @ history st)"
    by (rule addRecords_history) (simp add: es)
  also have "\<dots> = rev (map (\<lambda>(env, r). newRecord env r) rest)"
    by (simp add: es rest)
  finally show ?thesis by (simp add: es)
qed

text \<open>
  C4. \<open>addRecord\<close> puts the new record in front of the list and keeps the first
  200 entries. The new record has the entry's url, title, uploader, thumbnail and
  duration, the id built from the clock and the random suffix, and the current
  timestamp. The rest of the result is the first 199 entries of the old list, so the
  oldest entries beyond the cap are dropped. The result is what is persisted. After
  201 additions one after another, whatever the list was before, the history is
  exactly the last 200 records added, newest first: the record added first is gone.
\<close>

theorem addRecord_prepends_and_caps:
  "history (fst (addRecord env r st)) =
     take 200
       (\<lparr>d_id = digits10 (now_id env) @ ''_'' @ random_suffix env, d_url = n_url r,
         d_title = n_title r, d_uploader = n_uploader r, d_thumbnail = n_thumbnail r,
         d_duration = n_duration r, d_downloadedAt = now_stamp env\<rparr> # history st)
   \<and> hd (history (fst (addRecord env r st))) =
       \<lparr>d_id = digits10 (now_id env) @ ''_'' @ random_suffix env, d_url = n_url r,
        d_title = n_title r, d_uploader = n_uploader r, d_thumbnail = n_thumbnail r,
        d_duration = n_duration r, d_downloadedAt = now_stamp env\<rparr>
   \<and> tl (history (fst (addRecord env r st))) = take 199 (history st)
   \<and> length (history (fst (addRecord env r st))) = min 200 (Suc (length (history st)))
   \<and> (async_storage_ok st \<longrightarrow>
        h_stored (fst (addRecord env r st)) = Some (history (fst (addRecord env r st))))
   \<and> (length es = 201 \<longrightarrow>
        history (addRecords es st) =
          rev (map (\<lambda>(env, r).
                 \<lparr>d_id = digits10 (now_id env) @ ''_'' @ random_suffix env, d_url = n_url r,
                  d_title = n_title r, d_uploader = n_uploader r, d_thumbnail = n_thumbnail r,
                  d_duration = n_duration r, d_downloadedAt = now_stamp env\<rparr>) (tl es))
        \<and> length (history (addRecords es st)) = 200)"
proof -
  let ?new = "\<lambda>env r.
     \<lparr>d_id = digits10 (now_id env) @ ''_'' @ random_suffix env, d_url = n_url r,
      d_title = n_title r, d_uploader = n_uploader r, d_thumbnail = n_thumbnail r,
      d_duration = n_duration r, d_downloadedAt = now_stamp env\<rparr>"
  have nr: "newRecord = ?new" by (simp add: newRecord_def fun_eq_iff)
  have h: "history (fst (addRecord env r st)) = take 200 (?new env r # history st)"
    by (simp add: addRecord_history MAX_HISTORY_def nr)
  have t: "take 200 (?new env r # history st) = ?new env r # take 199 (history st)"
    by (simp add: take_Cons')
  have s: "async_storage_ok st \<longrightarrow>
        h_stored (fst (addRecord env r st)) = Some (history (fst (addRecord env r st)))"
    by (simp add: addRecord_def persist_def Let_def)
  have n: "length es = 201 \<longrightarrow>
        history (addRecords es st) = rev (map (\<lambda>(env, r). ?new env r) (tl es))
        \<and> length (history (addRecords es st)) = 200"
  proof
    assume l: "length es = 201"
    then have "history (addRecords es st) = rev (map (\<lambda>(env, r). newRecord env r) (tl es))"
      by (intro addRecords_one_past_cap) (simp add: MAX_HISTORY_def)
    with l show "history (addRecords es st) = rev (map (\<lambda>(env, r). ?new env r) (tl es))
        \<and> length (history (addRecords es st)) = 200" by (simp add: nr)
  qed
  have h1: "hd (history (fst (addRecord env r st))) = ?new env r" unfolding h t by simp
  have h2: "tl (history (fst (addRecord env r st))) = take 199 (history st)"
    unfolding h t by simp
  have h3: "length (history (fst (addRecord env r st))) = min 200 (Suc (length (history st)))"
    unfolding h by simp
  show ?thesis
    by (intro conjI h h1 h2 h3 s n)
qed

theorem addRecord_prepends_and_caps_witness:
  "history (addRecords
      (map (\<lambda>i. (\<lparr>now_id = i, random_suffix = ''k3f9x2'', now_stamp = i + 5\<rparr>,
                 \<lparr>n_url = ''https://www.instagram.com/reel/ABC123'', n_title = ''Sunset'',
                  n_uploader = ''someone'', n_thumbnail = ''https://cdn.example/t.jpg'',
                  n_duration = 12\<rparr>)) [0..<201])
      \<lparr>history = [], h_stored = None, async_storage_ok = True\<rparr>)
   = rev (map (\<lambda>i.
        \<lparr>d_id = digits10 i @ ''_k3f9x2'', d_url = ''https://www.instagram.com/reel/ABC123'',
         d_title = ''Sunset'', d_uploader = ''someone'',
         d_thumbnail = ''https://cdn.example/t.jpg'', d_duration = 12,
         d_downloadedAt = i + 5\<rparr>) [1..<201])
   \<and> length (history (addRecords
      (map (\<lambda>i. (\<lparr>now_id = i, random_suffix = ''k3f9x2'', now_stamp = i + 5\<rparr>,
                 \<lparr>n_url = ''https://www.instagram.com/reel/ABC123'', n_title = ''Sunset'',
                  n_uploader = ''someone'', n_thumbnail = ''https://cdn.example/t.jpg'',
                  n_duration = 12\<rparr>)) [0..<201])
      \<lparr>history = [], h_stored = None, async_storage_ok = True\<rparr>)) = 200
   \<and> digits10 200 @ ''_k3f9x2'' = ''200_k3f9x2''"
proof -
  let ?mk = "\<lambda>i. (\<lparr>now_id = i, random_suffix = ''k3f9x2'', now_stamp = i + 5\<rparr>,
                 \<lparr>n_url = ''https://www.instagram.com/reel/ABC123'', n_title = ''Sunset'',
                  n_uploader = ''someone'', n_thumbnail = ''https://cdn.example/t.jpg'',
                  n_duration = 12\<rparr>)"
  let ?es = "map ?mk [0..<201]"
  let ?st = "\<lparr>history = [], h_stored = None, async_storage_ok = True\<rparr>"
  have l: "length ?es = 201" by simp
  have tl_es: "tl ?es = map ?mk [1..<201]"
    by (simp add: map_tl [symmetric] upt_rec [of 0] del: upt_Suc)
  have d: "digits10 200 @ ''_k3f9x2'' = ''200_k3f9x2''" by code_simp
  note T = addRecord_prepends_and_caps [where st = ?st and es = ?es]
  from T [THEN conjunct2, THEN conjunct2, THEN conjunct2, THEN conjunct2, THEN conjunct2] l
  have "history (addRecords ?es ?st) =
          rev (map (\<lambda>(env, r).
                 \<lparr>d_id = digits10 (now_id env) @ ''_'' @ random_suffix env, d_url = n_url r,
                  d_title = n_title r, d_uploader = n_uploader r, d_thumbnail = n_thumbnail r,
                  d_duration = n_duration r, d_downloadedAt = now_stamp env\<rparr>) (tl ?es))
        \<and> length (history (addRecords ?es ?st)) = 200"
    by blast
  then show ?thesis unfolding tl_es using d by (simp add: comp_def)
qed

section \<open>Properties of the session\<close>

text \<open>
  C5. The session is logged in exactly when it holds a cookie named \<open>sessionid\<close>
  with a non-empty value. Saving a cookie list that holds such a cookie makes the
  session logged in; \<open>clearSession\<close> empties the cookie list, so the session is not
  logged in, and removes the persisted session when the secure store accepts the
  deletion.
\<close>

theorem isLoggedIn_iff_sessionid:
  "(isLoggedIn s \<longleftrightarrow> (\<exists>c \<in> set (cookies s). c_name c = ''sessionid'' \<and> c_value c \<noteq> []))
   \<and> ((\<exists>c \<in> set cs. c_name c = ''sessionid'' \<and> c_value c \<noteq> []) \<longrightarrow>
        isLoggedIn (session (fst (saveCookies cs user st))))
   \<and> cookies (session (fst (saveCookies cs user st))) = cs
   \<and> \<not> isLoggedIn (session (fst (clearSession st)))
   \<and> cookies (session (fst (clearSession st))) = []
   \<and> (secure_store_ok st \<longrightarrow> stored (fst (clearSession st)) = None)"
  by (auto simp: isLoggedIn_def list_ex_iff saveCookies_def clearSession_def Let_def)

theorem isLoggedIn_iff_sessionid_witness:
  "isLoggedIn (session (fst (saveCookies
      [\<lparr>c_name = ''sessionid'', c_value = ''X'', c_domain = ''.instagram.com'', c_path = ''/'',
        c_secure = True, c_httpOnly = True, c_expires = None\<rparr>] None
      \<lparr>session = \<lparr>cookies = [], username = None\<rparr>, stored = None, secure_store_ok = True\<rparr>)))
   \<and> stored (fst (clearSession (fst (saveCookies
      [\<lparr>c_name = ''sessionid'', c_value = ''X'', c_domain = ''.instagram.com'', c_path = ''/'',
        c_secure = True, c_httpOnly = True, c_expires = None\<rparr>] None
      \<lparr>session = \<lparr>cookies = [], username = None\<rparr>, stored = None, secure_store_ok = True\<rparr>))))
      = None
   \<and> \<not> isLoggedIn (session (fst (clearSession (fst (saveCookies
      [\<lparr>c_name = ''sessionid'', c_value = ''X'', c_domain = ''.instagram.com'', c_path = ''/'',
        c_secure = True, c_httpOnly = True, c_expires = None\<rparr>] None
      \<lparr>session = \<lparr>cookies = [], username = None\<rparr>, stored = None, secure_store_ok = True\<rparr>)))))"
proof -
  let ?c = "\<lparr>c_name = ''sessionid'', c_value = ''X'', c_domain = ''.instagram.com'', c_path = ''/'',
        c_secure = True, c_httpOnly = True, c_expires = None\<rparr>"
  let ?st = "\<lparr>session = \<lparr>cookies = [], username = None\<rparr>, stored = None, secure_store_ok = True\<rparr>"
  let ?st1 = "fst (saveCookies [?c] None ?st)"
  have ex: "\<exists>c \<in> set [?c]. c_name c = ''sessionid'' \<and> c_value c \<noteq> []" by simp
  have okk: "secure_store_ok ?st1" by (simp add: saveCookies_def Let_def)
  from isLoggedIn_iff_sessionid [of _ "[?c]" None ?st] ex
  have a: "isLoggedIn (session ?st1)" by blast
  from isLoggedIn_iff_sessionid [of _ _ _ ?st1] okk
  have b: "stored (fst (clearSession ?st1)) = None"
    and c: "\<not> isLoggedIn (session (fst (clearSession ?st1)))" by blast+
  from a b c show ?thesis by blast
qed

subsection \<open>Splitting what was joined\<close>


lemma split_on_nonempty: "split_on c s \<noteq> []"
  by (induction s) (auto split: list.splits)

lemma split_on_no_sep: "c \<notin> set x \<Longrightarrow> split_on c x = [x]"
  by (induction x) (auto split: list.splits)

lemma split_on_append_sep:
  "c \<notin> set x \<Longrightarrow> split_on c (x @ c # rest) = x # split_on c rest"
  by (induction x) (auto split: list.splits simp: split_on_nonempty)

lemma split_on_join:
  "xs \<noteq> [] \<Longrightarrow> (\<And>x. x \<in> set xs \<Longrightarrow> c \<notin> set x) \<Longrightarrow> split_on c (join [c] xs) = xs"
proof (induction "[c]" xs rule: join.induct)
  case 1
  then show ?case by simp
next
  case (2 x)
  then show ?case by (simp add: split_on_no_sep)
next
  case (3 x y ys)
  then show ?case by (simp add: split_on_append_sep)
qed

subsection \<open>The exported cookie lines\<close>

lemma cookie_line_fields: "cookie_line c = join [TAB] (line_fields c)"
  by (simp add: cookie_line_def line_fields_def Let_def)

lemma cookie_line_spec:
  "c_domain c \<noteq> [] \<Longrightarrow> c_path c \<noteq> [] \<Longrightarrow> cookie_line c = netscape_line c"
  by (simp add: cookie_line_def netscape_line_def Let_def)

lemma line_fields_clean:
  assumes "clean (c_domain c)" "clean (c_path c)" "clean (c_name c)" "clean (c_value c)"
  shows "\<forall>f \<in> set (line_fields c). TAB \<notin> set f \<and> LF \<notin> set f"
  using assms by (auto simp: line_fields_def Let_def clean_def TAB_def LF_def)

lemma set_join_subset: "set (join sep xs) \<subseteq> set sep \<union> \<Union> (set ` set xs)"
  by (induction sep xs rule: join.induct) auto

lemma split_cookie_line:
  assumes "clean (c_domain c)" "clean (c_path c)" "clean (c_name c)" "clean (c_value c)"
  shows "split_on TAB (cookie_line c) = line_fields c"
    and "LF \<notin> set (cookie_line c)"
proof -
  have f: "\<forall>f \<in> set (line_fields c). TAB \<notin> set f \<and> LF \<notin> set f"
    using assms by (rule line_fields_clean)
  have ne: "line_fields c \<noteq> []" by (simp add: line_fields_def Let_def)
  show "split_on TAB (cookie_line c) = line_fields c"
    unfolding cookie_line_fields using ne f by (intro split_on_join) auto
  have "set (cookie_line c) \<subseteq> set [TAB] \<union> \<Union> (set ` set (line_fields c))"
    unfolding cookie_line_fields by (rule set_join_subset)
  with f show "LF \<notin> set (cookie_line c)" by (auto simp: TAB_def LF_def)
qed

lemma cookiesForApi_lines:
  assumes ne: "cookies s \<noteq> []" and cl: "\<forall>c \<in> set (cookies s). clean_cookie c"
  shows "\<exists>out. cookiesForApi s = Some out
           \<and> map (split_on TAB) (split_on LF out) = map line_fields (cookies s)"
proof -
  let ?out = "join [LF] (map cookie_line (cookies s))"
  have "split_on LF ?out = map cookie_line (cookies s)"
    using ne cl by (intro split_on_join) (auto simp: clean_cookie_def split_cookie_line)
  moreover have "map (split_on TAB) (map cookie_line (cookies s)) = map line_fields (cookies s)"
    using cl by (auto simp: clean_cookie_def split_cookie_line)
  moreover have "cookiesForApi s = Some ?out" using ne by (simp add: cookiesForApi_def)
  ultimately show ?thesis by simp
qed

text \<open>
  C6 (as amended). \<open>cookiesForApi\<close> returns nothing for an empty cookie list, and
  otherwise one line per cookie, joined by line feeds. A line is the seven fields of
  \<open>line_fields\<close> joined by tabs: the domain (\<open>.instagram.com\<close> when the cookie's
  domain is empty), TRUE or FALSE as that written domain starts with a dot, the path
  (\<open>/\<close> when the cookie's path is empty), TRUE or FALSE for secure, \<open>0\<close>, the name
  and the value. For a cookie whose domain and path are not empty this is the line of
  the specification. When no field holds a tab or a line feed, splitting the result
  at line feeds and each line at tabs gives back exactly these fields, cookie by
  cookie.
\<close>

theorem cookiesForApi_netscape_lines:
  "(cookies s = [] \<longrightarrow> cookiesForApi s = None)
   \<and> (cookies s \<noteq> [] \<longrightarrow> cookiesForApi s = Some (join [LF] (map cookie_line (cookies s))))
   \<and> cookie_line c = join [TAB] (line_fields c)
   \<and> (c_domain c \<noteq> [] \<and> c_path c \<noteq> [] \<longrightarrow> cookie_line c = netscape_line c)
   \<and> (cookies s \<noteq> [] \<and> (\<forall>c \<in> set (cookies s). clean_cookie c) \<longrightarrow>
        (\<exists>out. cookiesForApi s = Some out
           \<and> map (split_on TAB) (split_on LF out) = map line_fields (cookies s)))"
  using cookiesForApi_lines [of s] cookie_line_fields [of c] cookie_line_spec [of c]
  by (simp add: cookiesForApi_def)


theorem cookiesForApi_netscape_lines_witness:
  "cookiesForApi
     \<lparr>cookies = [\<lparr>c_name = ''sessionid'', c_value = ''ABC123'', c_domain = ''.instagram.com'',
                   c_path = ''/'', c_secure = True, c_httpOnly = True, c_expires = None\<rparr>,
                 \<lparr>c_name = ''ds_user_id'', c_value = ''42'', c_domain = ''instagram.com'',
                   c_path = ''/'', c_secure = False, c_httpOnly = False, c_expires = None\<rparr>],
      username = Some ''42''\<rparr>
   = Some (''.instagram.com'' @ [TAB] @ ''TRUE'' @ [TAB] @ ''/'' @ [TAB] @ ''TRUE'' @ [TAB] @ ''0''
            @ [TAB] @ ''sessionid'' @ [TAB] @ ''ABC123'' @ [LF]
         @ ''instagram.com'' @ [TAB] @ ''FALSE'' @ [TAB] @ ''/'' @ [TAB] @ ''FALSE'' @ [TAB] @ ''0''
            @ [TAB] @ ''ds_user_id'' @ [TAB] @ ''42'')
   \<and> (\<exists>out. cookiesForApi
     \<lparr>cookies = [\<lparr>c_name = ''sessionid'', c_value = ''ABC123'', c_domain = ''.instagram.com'',
                   c_path = ''/'', c_secure = True, c_httpOnly = True, c_expires = None\<rparr>,
                 \<lparr>c_name = ''ds_user_id'', c_value = ''42'', c_domain = ''instagram.com'',
                   c_path = ''/'', c_secure = False, c_httpOnly = False, c_expires = None\<rparr>],
      username = Some ''42''\<rparr> = Some out
      \<and> map (split_on TAB) (split_on LF out) =
          [[''.instagram.com'', ''TRUE'', ''/'', ''TRUE'', ''0'', ''sessionid'', ''ABC123''],
           [''instagram.com'', ''FALSE'', ''/'', ''FALSE'', ''0'', ''ds_user_id'', ''42'']])"
proof -
  let ?c1 = "\<lparr>c_name = ''sessionid'', c_value = ''ABC123'', c_domain = ''.instagram.com'',
                   c_path = ''/'', c_secure = True, c_httpOnly = True, c_expires = None\<rparr>"
  let ?c2 = "\<lparr>c_name = ''ds_user_id'', c_value = ''42'', c_domain = ''instagram.com'',
                   c_path = ''/'', c_secure = False, c_httpOnly = False, c_expires = None\<rparr>"
  let ?s = "\<lparr>cookies = [?c1, ?c2], username = Some ''42''\<rparr>"
  have ne: "cookies ?s \<noteq> []" by simp
  have cl: "\<forall>c \<in> set (cookies ?s). clean_cookie c"
    by (simp add: clean_cookie_def clean_def TAB_def LF_def)
  have l: "map line_fields (cookies ?s) =
          [[''.instagram.com'', ''TRUE'', ''/'', ''TRUE'', ''0'', ''sessionid'', ''ABC123''],
           [''instagram.com'', ''FALSE'', ''/'', ''FALSE'', ''0'', ''ds_user_id'', ''42'']]"
    by (simp add: line_fields_def startsWith_def)
  have j: "join [LF] (map cookie_line (cookies ?s)) =
         ''.instagram.com'' @ [TAB] @ ''TRUE'' @ [TAB] @ ''/'' @ [TAB] @ ''TRUE'' @ [TAB] @ ''0''
            @ [TAB] @ ''sessionid'' @ [TAB] @ ''ABC123'' @ [LF]
         @ ''instagram.com'' @ [TAB] @ ''FALSE'' @ [TAB] @ ''/'' @ [TAB] @ ''FALSE'' @ [TAB] @ ''0''
            @ [TAB] @ ''ds_user_id'' @ [TAB] @ ''42''"
    by (simp add: cookie_line_def startsWith_def)
  from cookiesForApi_netscape_lines [of ?s] ne cl
  have a: "cookiesForApi ?s = Some (join [LF] (map cookie_line (cookies ?s)))"
    and b: "\<exists>out. cookiesForApi ?s = Some out
           \<and> map (split_on TAB) (split_on LF out) = map line_fields (cookies ?s)"
    by blast+
  from a b show ?thesis unfolding l j by blast
qed

text \<open>
  The claim as stated fails for a cookie with an empty domain and path, which the
  manual import produces from a Netscape line with these fields empty: the line
  written starts with \<open>.instagram.com\<close> and the flag TRUE, not with the empty domain
  and FALSE.
\<close>

theorem cookiesForApi_empty_domain_counterexample:
  "parse_manual (''# Netscape'' @ [LF] @ [TAB] @ ''TRUE'' @ [TAB] @ [TAB] @ ''TRUE'' @ [TAB] @ ''0''
                  @ [TAB] @ ''sessionid'' @ [TAB] @ ''X'')
     = [\<lparr>c_name = ''sessionid'', c_value = ''X'', c_domain = [], c_path = [],
         c_secure = True, c_httpOnly = True, c_expires = None\<rparr>]
   \<and> cookiesForApi
       \<lparr>cookies = [\<lparr>c_name = ''sessionid'', c_value = ''X'', c_domain = [], c_path = [],
                     c_secure = True, c_httpOnly = True, c_expires = None\<rparr>],
        username = None\<rparr>
     = Some (''.instagram.com'' @ [TAB] @ ''TRUE'' @ [TAB] @ ''/'' @ [TAB] @ ''TRUE'' @ [TAB] @ ''0''
              @ [TAB] @ ''sessionid'' @ [TAB] @ ''X'')
   \<and> netscape_line \<lparr>c_name = ''sessionid'', c_value = ''X'', c_domain = [], c_path = [],
                     c_secure = True, c_httpOnly = True, c_expires = None\<rparr>
     = [TAB] @ ''FALSE'' @ [TAB] @ [TAB] @ ''TRUE'' @ [TAB] @ ''0'' @ [TAB] @ ''sessionid'' @ [TAB] @ ''X''
   \<and> cookiesForApi
       \<lparr>cookies = [\<lparr>c_name = ''sessionid'', c_value = ''X'', c_domain = [], c_path = [],
                     c_secure = True, c_httpOnly = True, c_expires = None\<rparr>],
        username = None\<rparr>
     \<noteq> Some (join [LF] (map netscape_line
         [\<lparr>c_name = ''sessionid'', c_value = ''X'', c_domain = [], c_path = [],
           c_secure = True, c_httpOnly = True, c_expires = None\<rparr>]))"
  by code_simp

section \<open>Properties of the API client\<close>

lemma status_is_ok_True:
  "status_is_ok data = Inr True \<longleftrightarrow> (\<exists>kv. data = JObj kv \<and> map_of kv ''status'' = Some (JStr ''ok''))"
  by (cases data) (auto simp: status_is_ok_def)

lemma checkServerHealth_returns: "\<exists>b. checkServerHealth fetch = Inr b"
  by (cases "checkServerHealth_try fetch") (auto simp: checkServerHealth_def)

lemma checkServerHealth_True:
  "checkServerHealth fetch = Inr True \<longleftrightarrow>
     (\<exists>response kv. fetch health_request = Resolved response \<and> ok response
        \<and> payload response = Inr (JObj kv) \<and> map_of kv ''status'' = Some (JStr ''ok''))"
proof (cases "fetch health_request")
  case Rejected
  then show ?thesis by (simp add: checkServerHealth_def checkServerHealth_try_def)
next
  case (Resolved response)
  show ?thesis
  proof (cases "payload response")
    case (Inl m)
    with Resolved show ?thesis
      by (simp add: checkServerHealth_def checkServerHealth_try_def)
  next
    case (Inr data)
    with Resolved status_is_ok_True [of data] show ?thesis
      by (auto simp: checkServerHealth_def checkServerHealth_try_def split: sum.splits)
  qed
qed

text \<open>
  C8. \<open>checkServerHealth\<close> always returns a boolean and never throws: every
  exception inside the \<open>try\<close> block becomes \<open>false\<close>. It returns \<open>true\<close> exactly
  when the response is 2xx and its body is a JSON object whose \<open>status\<close> field is the
  string \<open>ok\<close>; a rejected request (network failure or timeout), a response outside
  2xx, a body that is not JSON and a body without that field all give \<open>false\<close>.
\<close>

theorem checkServerHealth_never_throws:
  "(\<exists>b. checkServerHealth fetch = Inr b)
   \<and> (checkServerHealth fetch = Inr True \<longleftrightarrow>
        (\<exists>response kv. fetch health_request = Resolved response \<and> ok response
           \<and> payload response = Inr (JObj kv) \<and> map_of kv ''status'' = Some (JStr ''ok'')))
   \<and> (fetch health_request = Rejected \<longrightarrow> checkServerHealth fetch = Inr False)
   \<and> (fetch health_request = Resolved response \<and> \<not> ok response \<longrightarrow>
        checkServerHealth fetch = Inr False)
   \<and> (fetch health_request = Resolved response \<and> payload response = Inl m \<longrightarrow>
        checkServerHealth fetch = Inr False)
   \<and> (fetch health_request = Resolved response \<and> payload response = Inr data
        \<and> (\<forall>kv. data = JObj kv \<longrightarrow> map_of kv ''status'' \<noteq> Some (JStr ''ok'')) \<longrightarrow>
        checkServerHealth fetch = Inr False)"
proof -
  have r: "\<exists>b. checkServerHealth fetch = Inr b" by (rule checkServerHealth_returns)
  have t: "checkServerHealth fetch = Inr True \<longleftrightarrow>
        (\<exists>response kv. fetch health_request = Resolved response \<and> ok response
           \<and> payload response = Inr (JObj kv) \<and> map_of kv ''status'' = Some (JStr ''ok''))"
    by (rule checkServerHealth_True)
  have f: "checkServerHealth fetch \<noteq> Inr True \<Longrightarrow> checkServerHealth fetch = Inr False"
    using r by auto
  have a: "fetch health_request = Rejected \<longrightarrow> checkServerHealth fetch = Inr False"
    using t f by auto
  have b: "fetch health_request = Resolved response \<and> \<not> ok response \<longrightarrow>
        checkServerHealth fetch = Inr False"
    using t f by auto
  have c: "fetch health_request = Resolved response \<and> payload response = Inl m \<longrightarrow>
        checkServerHealth fetch = Inr False"
    using t f by auto
  have d: "fetch health_request = Resolved response \<and> payload response = Inr data
        \<and> (\<forall>kv. data = JObj kv \<longrightarrow> map_of kv ''status'' \<noteq> Some (JStr ''ok'')) \<longrightarrow>
        checkServerHealth fetch = Inr False"
    using t f by auto
  from r t a b c d show ?thesis by blast
qed

theorem checkServerHealth_never_throws_witness:
  "checkServerHealth (\<lambda>q. Rejected) = Inr False
   \<and> checkServerHealth (\<lambda>q. Resolved \<lparr>status_code = 503, content_disposition = None,
         error_json = None, payload = Inr (JObj [(''status'', JStr ''ok'')])\<rparr>) = Inr False
   \<and> checkServerHealth (\<lambda>q. Resolved \<lparr>status_code = 200, content_disposition = None,
         error_json = None, payload = Inl ''Unexpected token''\<rparr>) = Inr False
   \<and> checkServerHealth (\<lambda>q. Resolved \<lparr>status_code = 200, content_disposition = None,
         error_json = None, payload = Inr (JObj [(''status'', JStr ''down'')])\<rparr>) = Inr False
   \<and> checkServerHealth (\<lambda>q. Resolved \<lparr>status_code = 200, content_disposition = None,
         error_json = None, payload = Inr (JObj [(''status'', JStr ''ok'')])\<rparr>) = Inr True"
proof -
  let ?r1 = "\<lparr>status_code = 503, content_disposition = None,
         error_json = None, payload = Inr (JObj [(''status'', JStr ''ok'')])\<rparr>"
  let ?r2 = "\<lparr>status_code = 200, content_disposition = None,
         error_json = None, payload = Inl ''Unexpected token'' :: string + json\<rparr>"
  let ?r3 = "\<lparr>status_code = 200, content_disposition = None,
         error_json = None, payload = Inr (JObj [(''status'', JStr ''down'')])\<rparr>"
  let ?r4 = "\<lparr>status_code = 200, content_disposition = None,
         error_json = None, payload = Inr (JObj [(''status'', JStr ''ok'')])\<rparr>"
  have a: "checkServerHealth (\<lambda>q. Rejected) = Inr False"
    using checkServerHealth_never_throws [of "\<lambda>q. Rejected"] by simp
  have b: "checkServerHealth (\<lambda>q. Resolved ?r1) = Inr False"
    using checkServerHealth_never_throws [of "\<lambda>q. Resolved ?r1" ?r1] by (simp add: ok_def)
  have c: "checkServerHealth (\<lambda>q. Resolved ?r2) = Inr False"
    using checkServerHealth_never_throws [of "\<lambda>q. Resolved ?r2" ?r2 "''Unexpected token''"] by simp
  have d: "checkServerHealth (\<lambda>q. Resolved ?r3) = Inr False"
    using checkServerHealth_never_throws
      [of "\<lambda>q. Resolved ?r3" ?r3 _ "JObj [(''status'', JStr ''down'')]"] by simp
  have e: "checkServerHealth (\<lambda>q. Resolved ?r4) = Inr True"
    using checkServerHealth_never_throws [of "\<lambda>q. Resolved ?r4"] by (simp add: ok_def)
  from a b c d e show ?thesis by blast
qed

section \<open>The URL pattern and its matcher\<close>

lemma startsWith_iff: "startsWith s p \<longleftrightarrow> (\<exists>t. s = p @ t)"
  unfolding startsWith_def
  by (metis append_eq_conv_conj append_take_drop_id)

lemma plus_remainders:
  "set (map (\<lambda>k. drop k s) (rev [1..<Suc (length (takeWhile p s))]))
     = {t. \<exists>w. w \<noteq> [] \<and> (\<forall>c \<in> set w. p c) \<and> s = w @ t}"
proof (intro set_eqI iffI)
  fix t
  assume "t \<in> set (map (\<lambda>k. drop k s) (rev [1..<Suc (length (takeWhile p s))]))"
  then obtain k where k: "1 \<le> k" "k \<le> length (takeWhile p s)" and t: "t = drop k s"
    by auto
  have "take k s = take k (takeWhile p s)"
    using k(2) by (metis append_eq_conv_conj takeWhile_dropWhile_id take_append min.absorb2 
         take_all_iff diff_is_0_eq' append_Nil2 take_0) 
  then have "\<forall>c \<in> set (take k s). p c"
    by (metis in_set_takeD set_takeWhileD)
  moreover have "take k s \<noteq> []" using k length_takeWhile_le [of p s]
    by (metis One_nat_def Suc_le_lessD le_trans length_greater_0_conv less_le_not_le take_eq_Nil)
  moreover have "s = take k s @ t" by (simp add: t)
  ultimately show "t \<in> {t. \<exists>w. w \<noteq> [] \<and> (\<forall>c \<in> set w. p c) \<and> s = w @ t}" by blast
next
  fix t
  assume "t \<in> {t. \<exists>w. w \<noteq> [] \<and> (\<forall>c \<in> set w. p c) \<and> s = w @ t}"
  then obtain w where w: "w \<noteq> []" "\<forall>c \<in> set w. p c" "s = w @ t" by blast
  have "takeWhile p s = w @ takeWhile p t" using w by (simp add: takeWhile_append2)
  then have "length w \<le> length (takeWhile p s)" by simp
  moreover have "1 \<le> length w" using w(1) by (simp add: Suc_le_eq)
  moreover have "t = drop (length w) s" using w(3) by simp
  ultimately have "length w \<in> set (rev [1..<Suc (length (takeWhile p s))])"
    and "t = drop (length w) s" by auto
  then show "t \<in> set (map (\<lambda>k. drop k s) (rev [1..<Suc (length (takeWhile p s))]))"
    unfolding set_map by (rule image_eqI [rotated])
qed

lemma rx_match_set: "set (rx_match r s) = {t. \<exists>p \<in> lang r. s = p @ t}"
proof (induction r arbitrary: s)
  case (Lit l)
  show ?case by (auto simp: startsWith_iff)
next
  case (Opt r)
  then show ?case by auto
next
  case (Alt a b)
  then show ?case by auto
next
  case (Seq a b)
  show ?case
  proof (intro set_eqI iffI)
    fix t
    assume "t \<in> set (rx_match (Seq a b) s)"
    then obtain m where "m \<in> set (rx_match a s)" "t \<in> set (rx_match b m)" by auto
    then obtain x y where "x \<in> lang a" "s = x @ m" "y \<in> lang b" "m = y @ t"
      unfolding Seq.IH by blast
    then have "x @ y \<in> lang (Seq a b)" "s = (x @ y) @ t" by auto
    then show "t \<in> {t. \<exists>p \<in> lang (Seq a b). s = p @ t}" by blast
  next
    fix t
    assume "t \<in> {t. \<exists>p \<in> lang (Seq a b). s = p @ t}"
    then obtain x y where xy: "x \<in> lang a" "y \<in> lang b" "s = (x @ y) @ t" by auto
    then have "y @ t \<in> set (rx_match a s)" unfolding Seq.IH by auto
    moreover have "t \<in> set (rx_match b (y @ t))" unfolding Seq.IH using xy by auto
    ultimately show "t \<in> set (rx_match (Seq a b) s)" by auto
  qed
next
  case (Plus p)
  show ?case using plus_remainders [of s p] by (simp add: Let_def)
qed

lemma rx_test_iff: "rx_test r s \<longleftrightarrow> (\<exists>p t. p \<in> lang r \<and> s = p @ t)"
proof -
  have "rx_test r s \<longleftrightarrow> set (rx_match r s) \<noteq> {}" by (simp add: rx_test_def)
  then show ?thesis unfolding rx_match_set by blast
qed


lemma lang_SeqI: "x \<in> lang a \<Longrightarrow> y \<in> lang b \<Longrightarrow> x @ y \<in> lang (Seq a b)"
  by auto

lemma lang_SeqE:
  assumes "p \<in> lang (Seq a b)"
  obtains x y where "p = x @ y" "x \<in> lang a" "y \<in> lang b"
  using assms by auto

lemma rx_test_reel_shaped: "rx_test INSTAGRAM_URL_REGEX s \<longleftrightarrow> reel_shaped s"
proof -
  define r6 where "r6 = Seq (Lit ''/'') (Plus word_or_hyphen)"
  define r5 where "r5 = Seq (Alt (Lit ''reel'') (Alt (Lit ''reels'') (Lit ''p''))) r6"
  define r4 where "r4 = Seq (Lit ''instagram.com/'') r5"
  define r3 where "r3 = Seq (Opt (Lit ''www.'')) r4"
  define r2 where "r2 = Seq (Lit ''://'') r3"
  define r1 where "r1 = Seq (Opt (Lit ''s'')) r2"
  have R: "INSTAGRAM_URL_REGEX = Seq (Lit ''http'') r1"
    by (simp add: INSTAGRAM_URL_REGEX_def r1_def r2_def r3_def r4_def r5_def r6_def)
  show ?thesis
  proof
    assume "rx_test INSTAGRAM_URL_REGEX s"
    then obtain p t where p: "p \<in> lang (Seq (Lit ''http'') r1)" and s: "s = p @ t"
      unfolding rx_test_iff R by blast
    from p obtain x1 y1 where 1: "p = x1 @ y1" "x1 = ''http''" "y1 \<in> lang r1"
      by (elim lang_SeqE) simp
    from 1(3) obtain o1 y2 where 2: "y1 = o1 @ y2" "o1 = [] \<or> o1 = ''s''" "y2 \<in> lang r2"
      unfolding r1_def by (elim lang_SeqE) auto
    from 2(3) obtain x3 y3 where 3: "y2 = x3 @ y3" "x3 = ''://''" "y3 \<in> lang r3"
      unfolding r2_def by (elim lang_SeqE) simp
    from 3(3) obtain www y4 where 4: "y3 = www @ y4" "www = [] \<or> www = ''www.''" "y4 \<in> lang r4"
      unfolding r3_def by (elim lang_SeqE) auto
    from 4(3) obtain x5 y5 where 5: "y4 = x5 @ y5" "x5 = ''instagram.com/''" "y5 \<in> lang r5"
      unfolding r4_def by (elim lang_SeqE) simp
    from 5(3) obtain seg y6 where
      6: "y5 = seg @ y6" "seg = ''reel'' \<or> seg = ''reels'' \<or> seg = ''p''" "y6 \<in> lang r6"
      unfolding r5_def by (elim lang_SeqE) auto
    from 6(3) obtain x7 w where
      7: "y6 = x7 @ w" "x7 = ''/''" "w \<noteq> []" "\<forall>c \<in> set w. word_or_hyphen c"
      unfolding r6_def by (elim lang_SeqE) simp
    from 7(3,4) obtain c w' where w: "w = c # w'" "word_or_hyphen c" by (cases w) auto
    have sch: "x1 @ o1 = ''http'' \<or> x1 @ o1 = ''https''" using 1(2) 2(2) by auto
    have "s = (x1 @ o1) @ ''://'' @ www @ ''instagram.com/'' @ seg @ ''/'' @ [c] @ (w' @ t)"
      unfolding s 1(1) 2(1) 3(1) 4(1) 5(1) 6(1) 7(1) w(1) 3(2) 5(2) 7(2) by simp
    with sch 4(2) 6(2) w(2) show "reel_shaped s" unfolding reel_shaped_def by blast
  next
    assume "reel_shaped s"
    then obtain scheme www seg c rest where
      s: "s = scheme @ ''://'' @ www @ ''instagram.com/'' @ seg @ ''/'' @ [c] @ rest"
      and c: "scheme = ''http'' \<or> scheme = ''https''" "www = [] \<or> www = ''www.''"
        "seg = ''reel'' \<or> seg = ''reels'' \<or> seg = ''p''" "word_or_hyphen c"
      unfolding reel_shaped_def by blast
    from c(1) obtain o1 where o1: "scheme = ''http'' @ o1" "o1 = [] \<or> o1 = ''s''" by auto
    have 6: "''/'' @ [c] \<in> lang r6"
      unfolding r6_def using c(4) by (intro lang_SeqI) simp_all
    have 5: "seg @ ''/'' @ [c] \<in> lang r5"
      unfolding r5_def using c(3) 6 by (intro lang_SeqI) auto
    have 4: "''instagram.com/'' @ seg @ ''/'' @ [c] \<in> lang r4"
      unfolding r4_def using 5 by (intro lang_SeqI) simp_all
    have 3: "www @ ''instagram.com/'' @ seg @ ''/'' @ [c] \<in> lang r3"
      unfolding r3_def using c(2) 4 by (intro lang_SeqI) auto
    have 2: "''://'' @ www @ ''instagram.com/'' @ seg @ ''/'' @ [c] \<in> lang r2"
      unfolding r2_def using 3 by (intro lang_SeqI) simp_all
    have 1: "o1 @ ''://'' @ www @ ''instagram.com/'' @ seg @ ''/'' @ [c] \<in> lang r1"
      unfolding r1_def using o1(2) 2 by (intro lang_SeqI) auto
    have 0: "''http'' @ o1 @ ''://'' @ www @ ''instagram.com/'' @ seg @ ''/'' @ [c]
               \<in> lang INSTAGRAM_URL_REGEX"
      unfolding R using 1 by (intro lang_SeqI) simp_all
    have "s = (''http'' @ o1 @ ''://'' @ www @ ''instagram.com/'' @ seg @ ''/'' @ [c]) @ rest"
      unfolding s o1(1) by simp
    with 0 show "rx_test INSTAGRAM_URL_REGEX s" unfolding rx_test_iff by blast
  qed
qed

lemma url0_valid:
  "trim ''https://www.instagram.com/reel/ABC123'' = ''https://www.instagram.com/reel/ABC123''"
  "rx_test INSTAGRAM_URL_REGEX ''https://www.instagram.com/reel/ABC123''"
  by code_simp+

section \<open>Errors of the API client\<close>













text \<open>
  The \<open>catch\<close> of \<open>handleDownload\<close> shows the message of whatever the download
  through the server throws, an ApiError or not, and leaves the 403 flag as it was.
\<close>

lemma handleDownload_fallback_error:
  assumes "reelInfo st = Some info" "requestPermissionsAsync w = Inr ''granted''"
    and "downloadFileAsync w (video_url info)
           (safeName (title info) @ ''_'' @ digits10 (now_file w) @ ''.mp4'') = Inl e0"
    and "downloadReelBinary (fetch_download w) (now_fallback w) (trim (url st)) = Inl err"
  shows "status (fst (handleDownload w sess st)) = error"
    and "errorMessage (fst (handleDownload w sess st)) = download_error_message err"
    and "is403 (fst (handleDownload w sess st)) = is403 st"
    and "reelInfo (fst (handleDownload w sess st)) = Some info"
  using assms
  by (simp_all add: handleDownload_def obtain_file_def download_failed_def Let_def)

section \<open>The request the handlers issue\<close>

text \<open>
  C1. The claim asks for the cookie header in the request. With a session that exports
  a cookie string, the request that \<open>handleFetchInfo\<close> issues is a POST to \<open>/info\<close> with
  the JSON body \<open>{url}\<close> and the single header \<open>Content-Type\<close>: \<open>fetchReelInfo\<close>
  takes the address only and the cookie string passed second is dropped.
\<close>

theorem fetch_drops_cookie_header:
  "cookiesForApi
     \<lparr>cookies = [\<lparr>c_name = ''sessionid'', c_value = ''X'', c_domain = ''.instagram.com'',
                   c_path = ''/'', c_secure = True, c_httpOnly = True, c_expires = None\<rparr>],
      username = None\<rparr>
     = Some (''.instagram.com'' @ [TAB] @ ''TRUE'' @ [TAB] @ ''/'' @ [TAB] @ ''TRUE'' @ [TAB] @ ''0''
              @ [TAB] @ ''sessionid'' @ [TAB] @ ''X'')
   \<and> snd (handleFetchInfo offline_world
        \<lparr>cookies = [\<lparr>c_name = ''sessionid'', c_value = ''X'', c_domain = ''.instagram.com'',
                      c_path = ''/'', c_secure = True, c_httpOnly = True, c_expires = None\<rparr>],
         username = None\<rparr>
        (initialHome\<lparr>url := ''https://www.instagram.com/reel/ABC123''\<rparr>))
     = [Fetch \<lparr>req_method = POST, req_url = ''http://192.168.1.10:8000/info'',
               req_headers = [(''Content-Type'', ''application/json'')],
               req_body = Some (JObj [(''url'', JStr ''https://www.instagram.com/reel/ABC123'')]),
               req_timeout = 15000\<rparr>]"
  by (simp add: cookiesForApi_def cookie_line_def startsWith_def handleFetchInfo_def url0_valid
        initialHome_def offline_world_def fetchReelInfo_def info_request_def API_BASE_URL_def
        INFO_TIMEOUT_MS_def Let_def)

text \<open>
  The same holds for every session and for the download through the server: neither
  handler's result depends on the session, and both requests carry the one header.
\<close>

lemma obtain_file_ignores_session:
  "obtain_file w sess st info = obtain_file w sess' st info"
  by (simp add: obtain_file_def Let_def split: sum.splits prod.splits)

lemma handlers_ignore_session:
  "handleFetchInfo w sess st = handleFetchInfo w sess' st"
  "handleDownload w sess st = handleDownload w sess' st"
proof -
  show "handleFetchInfo w sess st = handleFetchInfo w sess' st"
    by (simp add: handleFetchInfo_def Let_def)
  show "handleDownload w sess st = handleDownload w sess' st"
    using obtain_file_ignores_session [of w sess st _ sess']
    by (simp add: handleDownload_def Let_def split: option.splits sum.splits)
qed

lemma request_headers:
  "req_headers (info_request u) = [(''Content-Type'', ''application/json'')]"
  "req_headers (download_request u) = [(''Content-Type'', ''application/json'')]"
  "req_body (info_request u) = Some (JObj [(''url'', JStr u)])"
  "req_body (download_request u) = Some (JObj [(''url'', JStr u)])"
  "req_method (info_request u) = POST"
  "req_method (download_request u) = POST"
  by (simp_all add: info_request_def download_request_def)

section \<open>Properties of the home screen\<close>

lemma handleFetchInfo_invalid:
  assumes "trim (url st) = [] \<or> \<not> rx_test INSTAGRAM_URL_REGEX (trim (url st))"
  shows "handleFetchInfo w sess st =
     (st\<lparr>errorMessage := (if trim (url st) = [] then ''Por favor, ingresa una URL.''
                           else ''URL no valida. Ingresa un enlace de Instagram Reel.'')\<rparr>, [])"
  using assms by (auto simp: handleFetchInfo_def Let_def)

lemma handleFetchInfo_valid_trace:
  assumes "trim (url st) \<noteq> []" "rx_test INSTAGRAM_URL_REGEX (trim (url st))"
  shows "snd (handleFetchInfo w sess st) = [Fetch (info_request (trim (url st)))]"
  using assms by (simp add: handleFetchInfo_def Let_def split: sum.splits Thrown.splits)

lemma handleFetchInfo_valid_reelInfo:
  assumes "trim (url st) \<noteq> []" "rx_test INSTAGRAM_URL_REGEX (trim (url st))"
  shows "reelInfo (fst (handleFetchInfo w sess st)) =
           (case fetchReelInfo (fetch_info w) (trim (url st)) of
              Inr info \<Rightarrow> Some info | Inl e \<Rightarrow> None)"
    and "status (fst (handleFetchInfo w sess st)) =
           (case fetchReelInfo (fetch_info w) (trim (url st)) of
              Inr info \<Rightarrow> preview | Inl e \<Rightarrow> error)"
  using assms by (simp_all add: handleFetchInfo_def Let_def split: sum.splits Thrown.splits)

text \<open>
  C3. When the trimmed input is empty or is not of the shape of an Instagram Reel or
  post address, \<open>handleFetchInfo\<close> makes no call at all (so \<open>fetchReelInfo\<close> is not
  invoked), leaves the status and the held ReelInfo as they were (idle stays idle),
  and sets a validation message: one for the empty input, one for the wrong shape.
\<close>

theorem invalid_url_never_fetches:
  assumes "trim (url st) = [] \<or> \<not> reel_shaped (trim (url st))"
  shows "snd (handleFetchInfo w sess st) = []
     \<and> status (fst (handleFetchInfo w sess st)) = status st
     \<and> reelInfo (fst (handleFetchInfo w sess st)) = reelInfo st
     \<and> errorMessage (fst (handleFetchInfo w sess st)) =
         (if trim (url st) = [] then ''Por favor, ingresa una URL.''
          else ''URL no valida. Ingresa un enlace de Instagram Reel.'')
     \<and> errorMessage (fst (handleFetchInfo w sess st)) \<noteq> []"
proof -
  from assms have "trim (url st) = [] \<or> \<not> rx_test INSTAGRAM_URL_REGEX (trim (url st))"
    by (simp add: rx_test_reel_shaped)
  then show ?thesis by (simp add: handleFetchInfo_invalid)
qed

lemma not_reel_shaped_example:
  "\<not> reel_shaped (trim ''  https://www.instagram.com/stories/abc  '')"
  unfolding rx_test_reel_shaped [symmetric] by code_simp

theorem invalid_url_never_fetches_witness:
  "snd (handleFetchInfo offline_world \<lparr>cookies = [], username = None\<rparr>
      (initialHome\<lparr>url := ''  https://www.instagram.com/stories/abc  ''\<rparr>)) = []
   \<and> status (fst (handleFetchInfo offline_world \<lparr>cookies = [], username = None\<rparr>
      (initialHome\<lparr>url := ''  https://www.instagram.com/stories/abc  ''\<rparr>))) = idle
   \<and> errorMessage (fst (handleFetchInfo offline_world \<lparr>cookies = [], username = None\<rparr>
      (initialHome\<lparr>url := ''  https://www.instagram.com/stories/abc  ''\<rparr>)))
      = ''URL no valida. Ingresa un enlace de Instagram Reel.''
   \<and> snd (handleFetchInfo offline_world \<lparr>cookies = [], username = None\<rparr>
      (initialHome\<lparr>url := ''   ''\<rparr>)) = []
   \<and> status (fst (handleFetchInfo offline_world \<lparr>cookies = [], username = None\<rparr>
      (initialHome\<lparr>url := ''   ''\<rparr>))) = idle
   \<and> errorMessage (fst (handleFetchInfo offline_world \<lparr>cookies = [], username = None\<rparr>
      (initialHome\<lparr>url := ''   ''\<rparr>))) = ''Por favor, ingresa una URL.''"
proof -
  let ?s = "\<lparr>cookies = [], username = None\<rparr>"
  let ?a = "initialHome\<lparr>url := ''  https://www.instagram.com/stories/abc  ''\<rparr>"
  let ?b = "initialHome\<lparr>url := ''   ''\<rparr>"
  have ta: "trim (url ?a) \<noteq> []" by code_simp
  have ha: "trim (url ?a) = [] \<or> \<not> reel_shaped (trim (url ?a))"
    using not_reel_shaped_example by simp
  have tb: "trim (url ?b) = []" by code_simp
  have hb: "trim (url ?b) = [] \<or> \<not> reel_shaped (trim (url ?b))"
    using tb by simp
  have i: "status ?a = idle" "status ?b = idle" by (simp_all add: initialHome_def)
  from invalid_url_never_fetches [OF ha, of offline_world ?s]
       invalid_url_never_fetches [OF hb, of offline_world ?s] ta tb i
  show ?thesis by simp
qed

lemma onChangeText_cases:
  "status st = preview \<or> status st = success \<Longrightarrow>
     onChangeText t st = st\<lparr>url := t, errorMessage := [], status := idle, reelInfo := None\<rparr>"
  "status st = error \<Longrightarrow> onChangeText t st = st\<lparr>url := t, errorMessage := [], status := idle\<rparr>"
  "status st \<noteq> preview \<Longrightarrow> status st \<noteq> success \<Longrightarrow> status st \<noteq> error \<Longrightarrow>
     onChangeText t st = st\<lparr>url := t, errorMessage := []\<rparr>"
  by (auto simp: onChangeText_def Let_def)

lemma fetch_after_edit:
  assumes s: "status st = preview \<or> status st = success \<or> status st = error"
  shows "(status (fst (handleFetchInfo w sess (onChangeText t st))) = preview \<longrightarrow>
           (\<exists>info. fetchReelInfo (fetch_info w) (trim t) = Inr info
              \<and> reelInfo (fst (handleFetchInfo w sess (onChangeText t st))) = Some info))
       \<and> (status (fst (handleFetchInfo w sess (onChangeText t st))) = preview
          \<or> status (fst (handleFetchInfo w sess (onChangeText t st))) = idle
          \<or> status (fst (handleFetchInfo w sess (onChangeText t st))) = error)"
proof -
  let ?e = "onChangeText t st"
  let ?h = "fst (handleFetchInfo w sess ?e)"
  from s have i: "status ?e = idle" and u: "url ?e = t"
    by (auto simp: onChangeText_cases)
  show ?thesis
  proof (cases "trim (url ?e) = [] \<or> \<not> rx_test INSTAGRAM_URL_REGEX (trim (url ?e))")
    case True
    then have "status ?h = idle" using i by (simp add: handleFetchInfo_invalid)
    then show ?thesis by simp
  next
    case False
    then have "reelInfo ?h = (case fetchReelInfo (fetch_info w) (trim (url ?e)) of
              Inr info \<Rightarrow> Some info | Inl e \<Rightarrow> None)"
      and "status ?h = (case fetchReelInfo (fetch_info w) (trim (url ?e)) of
              Inr info \<Rightarrow> preview | Inl e \<Rightarrow> error)"
      by (simp_all add: handleFetchInfo_valid_reelInfo)
    then show ?thesis unfolding u by (auto split: sum.splits)
  qed
qed

text \<open>
  C2 (as amended). Editing the input through the text field's change handler
  (typing) in \<open>preview\<close> or \<open>success\<close> resets the status to \<open>idle\<close> and discards
  the held ReelInfo. Such an edit in \<open>error\<close> resets the status to \<open>idle\<close> and
  leaves the ReelInfo as it is. In all three states no preview is shown after the
  edit, the input is the new text and the message is cleared. A fetch right after
  the edit ends in \<open>preview\<close>, \<open>idle\<close> or \<open>error\<close>, and when it ends in
  \<open>preview\<close> (the only one of the three that shows a preview) the ReelInfo held is
  the one that fetch returned for the new text.
\<close>

theorem onChangeText_invalidates:
  "(status st = preview \<or> status st = success \<longrightarrow>
      status (onChangeText t st) = idle \<and> reelInfo (onChangeText t st) = None)
   \<and> (status st = error \<longrightarrow>
      status (onChangeText t st) = idle \<and> reelInfo (onChangeText t st) = reelInfo st)
   \<and> (status st = preview \<or> status st = success \<or> status st = error \<longrightarrow>
      \<not> showPreview (onChangeText t st)
      \<and> url (onChangeText t st) = t \<and> errorMessage (onChangeText t st) = []
      \<and> (showPreview (fst (handleFetchInfo w sess (onChangeText t st))) \<longrightarrow>
           (\<exists>info. fetchReelInfo (fetch_info w) (trim t) = Inr info
              \<and> reelInfo (fst (handleFetchInfo w sess (onChangeText t st))) = Some info)))
   \<and> (status st = preview \<or> status st = success \<or> status st = error \<longrightarrow>
      (status (fst (handleFetchInfo w sess (onChangeText t st))) = preview \<longrightarrow>
           (\<exists>info. fetchReelInfo (fetch_info w) (trim t) = Inr info
              \<and> reelInfo (fst (handleFetchInfo w sess (onChangeText t st))) = Some info))
      \<and> (status (fst (handleFetchInfo w sess (onChangeText t st))) = preview
          \<or> status (fst (handleFetchInfo w sess (onChangeText t st))) = idle
          \<or> status (fst (handleFetchInfo w sess (onChangeText t st))) = error))"
proof -
  let ?e = "onChangeText t st"
  let ?h = "fst (handleFetchInfo w sess ?e)"
  have a: "status st = preview \<or> status st = success \<longrightarrow>
      status ?e = idle \<and> reelInfo ?e = None"
    by (auto simp: onChangeText_cases)
  have b: "status st = error \<longrightarrow> status ?e = idle \<and> reelInfo ?e = reelInfo st"
    by (auto simp: onChangeText_cases)
  have c: "status st = preview \<or> status st = success \<or> status st = error \<longrightarrow>
      \<not> showPreview ?e \<and> url ?e = t \<and> errorMessage ?e = []
      \<and> (showPreview ?h \<longrightarrow>
           (\<exists>info. fetchReelInfo (fetch_info w) (trim t) = Inr info \<and> reelInfo ?h = Some info))"
  proof
    assume s: "status st = preview \<or> status st = success \<or> status st = error"
    then have i: "status ?e = idle" and u: "url ?e = t" and m: "errorMessage ?e = []"
      by (auto simp: onChangeText_cases)
    from i have n: "\<not> showPreview ?e" by (simp add: showPreview_def)
    have p: "showPreview ?h \<longrightarrow>
           (\<exists>info. fetchReelInfo (fetch_info w) (trim t) = Inr info \<and> reelInfo ?h = Some info)"
    proof (cases "trim (url ?e) = [] \<or> \<not> rx_test INSTAGRAM_URL_REGEX (trim (url ?e))")
      case True
      then have "status ?h = idle" using i by (simp add: handleFetchInfo_invalid)
      then show ?thesis by (simp add: showPreview_def)
    next
      case False
      then have "reelInfo ?h = (case fetchReelInfo (fetch_info w) (trim (url ?e)) of
              Inr info \<Rightarrow> Some info | Inl e \<Rightarrow> None)"
        by (intro handleFetchInfo_valid_reelInfo) simp_all
      then show ?thesis unfolding u by (auto simp: showPreview_def split: sum.splits)
    qed
    from n u m p show "\<not> showPreview ?e \<and> url ?e = t \<and> errorMessage ?e = []
      \<and> (showPreview ?h \<longrightarrow>
           (\<exists>info. fetchReelInfo (fetch_info w) (trim t) = Inr info \<and> reelInfo ?h = Some info))"
      by blast
  qed
  have d: "status st = preview \<or> status st = success \<or> status st = error \<longrightarrow>
      (status ?h = preview \<longrightarrow>
           (\<exists>info. fetchReelInfo (fetch_info w) (trim t) = Inr info \<and> reelInfo ?h = Some info))
      \<and> (status ?h = preview \<or> status ?h = idle \<or> status ?h = error)"
    using fetch_after_edit [of st w sess t] by blast
  show ?thesis by (intro conjI a b c d)
qed

text \<open>
  C10. With no ReelInfo held, \<open>handleDownload\<close> returns at once: the whole state
  (status, message, 403 flag and the rest) is unchanged and no call is made, neither
  the permission request nor any network or file operation.
\<close>

theorem handleDownload_without_info_is_noop:
  "reelInfo st = None \<Longrightarrow> handleDownload w sess st = (st, [])"
  by (simp add: handleDownload_def)

theorem handleDownload_without_info_is_noop_witness:
  "handleDownload offline_world \<lparr>cookies = [], username = None\<rparr>
      (initialHome\<lparr>url := ''https://www.instagram.com/reel/ABC123''\<rparr>)
     = (initialHome\<lparr>url := ''https://www.instagram.com/reel/ABC123''\<rparr>, [])"
proof -
  have "reelInfo (initialHome\<lparr>url := ''https://www.instagram.com/reel/ABC123''\<rparr>) = None"
    by (simp add: initialHome_def)
  then show ?thesis by (rule handleDownload_without_info_is_noop)
qed

text \<open>
  With a ReelInfo held the handler does run: its first call is the permission
  request and it ends in \<open>success\<close> or \<open>error\<close>.
\<close>

lemma handleDownload_with_info_asks_permission:
  "reelInfo st = Some info \<Longrightarrow>
     hd (snd (handleDownload w sess st)) = RequestPermission
     \<and> (status (fst (handleDownload w sess st)) = success
         \<or> status (fst (handleDownload w sess st)) = error)"
  by (auto simp: handleDownload_def download_failed_def Let_def split: sum.splits prod.splits)


theorem onChangeText_invalidates_witness:
  "status (onChangeText ''https://www.instagram.com/reel/XYZ''
      \<lparr>url = ''https://www.instagram.com/reel/ABC123'', status = preview,
       reelInfo = Some example_info, errorMessage = [], serverOnline = Some True,
       is403 = False\<rparr>) = idle
   \<and> reelInfo (onChangeText ''https://www.instagram.com/reel/XYZ''
      \<lparr>url = ''https://www.instagram.com/reel/ABC123'', status = preview,
       reelInfo = Some example_info, errorMessage = [], serverOnline = Some True,
       is403 = False\<rparr>) = None
   \<and> status (onChangeText ''https://www.instagram.com/reel/XYZ''
      \<lparr>url = ''https://www.instagram.com/reel/ABC123'', status = error,
       reelInfo = Some example_info, errorMessage = ''La descarga fallo.'',
       serverOnline = Some True, is403 = False\<rparr>) = idle
   \<and> reelInfo (onChangeText ''https://www.instagram.com/reel/XYZ''
      \<lparr>url = ''https://www.instagram.com/reel/ABC123'', status = error,
       reelInfo = Some example_info, errorMessage = ''La descarga fallo.'',
       serverOnline = Some True, is403 = False\<rparr>) = Some example_info
   \<and> \<not> showPreview (onChangeText ''https://www.instagram.com/reel/XYZ''
      \<lparr>url = ''https://www.instagram.com/reel/ABC123'', status = error,
       reelInfo = Some example_info, errorMessage = ''La descarga fallo.'',
       serverOnline = Some True, is403 = False\<rparr>)"
proof -
  let ?p = "\<lparr>url = ''https://www.instagram.com/reel/ABC123'', status = preview,
       reelInfo = Some example_info, errorMessage = [], serverOnline = Some True,
       is403 = False\<rparr>"
  let ?e = "\<lparr>url = ''https://www.instagram.com/reel/ABC123'', status = error,
       reelInfo = Some example_info, errorMessage = ''La descarga fallo.'',
       serverOnline = Some True, is403 = False\<rparr>"
  have sp: "status ?p = preview" and se: "status ?e = error" by simp_all
  from onChangeText_invalidates [where st = ?p and t = "''https://www.instagram.com/reel/XYZ''"] sp
  have a: "status (onChangeText ''https://www.instagram.com/reel/XYZ'' ?p) = idle
     \<and> reelInfo (onChangeText ''https://www.instagram.com/reel/XYZ'' ?p) = None"
    by blast
  from onChangeText_invalidates [where st = ?e and t = "''https://www.instagram.com/reel/XYZ''"] se
  have b: "status (onChangeText ''https://www.instagram.com/reel/XYZ'' ?e) = idle
     \<and> reelInfo (onChangeText ''https://www.instagram.com/reel/XYZ'' ?e) = reelInfo ?e
     \<and> \<not> showPreview (onChangeText ''https://www.instagram.com/reel/XYZ'' ?e)"
    by blast
  from a b show ?thesis by simp
qed

lemma fetched_preview:
  "fst (handleFetchInfo server_world \<lparr>cookies = [], username = None\<rparr>
          (onChangeText ''https://www.instagram.com/reel/ABC123'' initialHome))
     = \<lparr>url = ''https://www.instagram.com/reel/ABC123'', status = preview,
        reelInfo = Some example_info, errorMessage = [], serverOnline = None, is403 = False\<rparr>"
  by (simp add: handleFetchInfo_def onChangeText_def initialHome_def url0_valid Let_def
        fetchReelInfo_def server_world_def offline_world_def ok_def)

lemma failed_download:
  "fst (handleDownload server_world \<lparr>cookies = [], username = None\<rparr>
     \<lparr>url = ''https://www.instagram.com/reel/ABC123'', status = preview,
        reelInfo = Some example_info, errorMessage = [], serverOnline = None, is403 = False\<rparr>)
     = \<lparr>url = ''https://www.instagram.com/reel/ABC123'', status = error,
        reelInfo = Some example_info,
        errorMessage = ''Se necesitan permisos para guardar el video.'',
        serverOnline = None, is403 = False\<rparr>"
  by (simp add: handleDownload_def server_world_def offline_world_def download_failed_def
        download_error_message_def Let_def)

text \<open>
  The claim as stated fails in \<open>error\<close>: after a fetch that reaches \<open>preview\<close> and a
  download that fails (here the permission is denied), the state is \<open>error\<close> and
  still holds the ReelInfo; an edit then resets the status and keeps the ReelInfo.
\<close>

theorem edit_after_failed_download_counterexample:
  "status (fst (handleDownload server_world \<lparr>cookies = [], username = None\<rparr>
      (fst (handleFetchInfo server_world \<lparr>cookies = [], username = None\<rparr>
          (onChangeText ''https://www.instagram.com/reel/ABC123'' initialHome))))) = error
   \<and> status (onChangeText ''https://www.instagram.com/reel/XYZ''
      (fst (handleDownload server_world \<lparr>cookies = [], username = None\<rparr>
        (fst (handleFetchInfo server_world \<lparr>cookies = [], username = None\<rparr>
          (onChangeText ''https://www.instagram.com/reel/ABC123'' initialHome)))))) = idle
   \<and> reelInfo (onChangeText ''https://www.instagram.com/reel/XYZ''
      (fst (handleDownload server_world \<lparr>cookies = [], username = None\<rparr>
        (fst (handleFetchInfo server_world \<lparr>cookies = [], username = None\<rparr>
          (onChangeText ''https://www.instagram.com/reel/ABC123'' initialHome))))))
      = Some example_info"
  unfolding fetched_preview failed_download by (simp add: onChangeText_def Let_def)

text \<open>
  The Paste button is another way to change the input: it replaces the text and
  clears the message, and touches neither the status nor the ReelInfo, so a preview
  that was shown stays shown, now beside the pasted address.
\<close>

lemma paste_keeps_preview:
  assumes "getStringAsync w = Inr c" "c \<noteq> []"
  shows "fst (handlePaste w st) = st\<lparr>url := trim c, errorMessage := []\<rparr>"
    and "status (fst (handlePaste w st)) = status st"
    and "reelInfo (fst (handlePaste w st)) = reelInfo st"
    and "showPreview (fst (handlePaste w st)) = showPreview st"
  using assms by (simp_all add: handlePaste_def showPreview_def)

lemma paste_example:
  "fst (handlePaste (server_world\<lparr>getStringAsync := Inr '' https://www.instagram.com/reel/XYZ ''\<rparr>)
     \<lparr>url = ''https://www.instagram.com/reel/ABC123'', status = preview,
        reelInfo = Some example_info, errorMessage = [], serverOnline = None, is403 = False\<rparr>)
   = \<lparr>url = ''https://www.instagram.com/reel/XYZ'', status = preview,
        reelInfo = Some example_info, errorMessage = [], serverOnline = None, is403 = False\<rparr>"
proof -
  have "trim '' https://www.instagram.com/reel/XYZ '' = ''https://www.instagram.com/reel/XYZ''"
    by code_simp
  then show ?thesis by (simp add: handlePaste_def server_world_def offline_world_def)
qed

section \<open>Properties of the manual import\<close>










text \<open>
  Any line of seven or more fields without tabs and line feeds, not blank and not a
  comment, is read as the cookie of its fields.
\<close>

lemma parse_netscape_line:
  assumes len: "7 \<le> length fs"
    and cl: "\<And>f. f \<in> set fs \<Longrightarrow> clean f"
    and nb: "trim (join [TAB] fs) \<noteq> []"
    and nc: "\<not> startsWith (join [TAB] fs) ''#''"
  shows "parse_netscape (join [TAB] fs) = [netscape_cookie fs]"
proof -
  have ne: "fs \<noteq> []" using len by auto
  have "set (join [TAB] fs) \<subseteq> set [TAB] \<union> \<Union> (set ` set fs)" by (rule set_join_subset)
  then have "LF \<notin> set (join [TAB] fs)" using cl by (auto simp: clean_def TAB_def LF_def)
  then have l: "split_on LF (join [TAB] fs) = [join [TAB] fs]" by (rule split_on_no_sep)
  have t: "split_on TAB (join [TAB] fs) = fs"
    using ne cl by (intro split_on_join) (auto simp: clean_def)
  show ?thesis using nb nc len by (simp add: parse_netscape_def l t Let_def)
qed

end
